theory Spec2Isabelle
  imports Complex_Main "HOL-Library.AList" "HOL-Library.Sublist"
begin

section \<open>Values of the analyzer\<close>

text \<open>
  Every number the analyzer touches is a NumPy \<open>float64\<close>: a finite value, one of the
  two infinities, or NaN.  The analyzer itself only compares such numbers; all arithmetic
  on them is done by pandas, NumPy and the \<open>ta\<close> package.  A comparison with NaN on either
  side is false.
\<close>

datatype float64 = NaN | NegInf | Finite real | PosInf

fun fgt :: "float64 \<Rightarrow> float64 \<Rightarrow> bool" where
  "fgt NaN b = False"
| "fgt NegInf b = False"
| "fgt (Finite x) NaN = False"
| "fgt (Finite x) NegInf = True"
| "fgt (Finite x) (Finite y) = (y < x)"
| "fgt (Finite x) PosInf = False"
| "fgt PosInf NaN = False"
| "fgt PosInf NegInf = True"
| "fgt PosInf (Finite y) = True"
| "fgt PosInf PosInf = False"

definition flt :: "float64 \<Rightarrow> float64 \<Rightarrow> bool" where
  "flt a b = fgt b a"

text \<open>A value stored in one of the result dictionaries (\<open>Dict[str, Any]\<close>).\<close>

datatype pyval = Num float64 | Str string | Dict "(string \<times> pyval) list"

type_synonym dict = "(string \<times> pyval) list"

text \<open>
  The exceptions.  \<open>IndexError\<close> and \<open>KeyError\<close> are raised by pandas indexing and by
  dictionary subscripts.  \<open>InsufficientDataError\<close> is the name the specification uses; no
  statement of the source raises it.
\<close>

datatype error = IndexError | KeyError | InsufficientDataError

definition bindE :: "error + 'a \<Rightarrow> ('a \<Rightarrow> error + 'b) \<Rightarrow> error + 'b" where
  "bindE m f = (case m of Inl e \<Rightarrow> Inl e | Inr x \<Rightarrow> f x)"

definition thenE ::
  "(error + 'a) \<times> 's \<Rightarrow> ('a \<Rightarrow> 's \<Rightarrow> (error + 'b) \<times> 's) \<Rightarrow> (error + 'b) \<times> 's" where
  \<comment> \<open>one statement after another on the analyzer: an exception ends the method and
      leaves the object as it is at that point\<close>
  "thenE r f = (case r of (Inl e, st) \<Rightarrow> (Inl e, st) | (Inr x, st) \<Rightarrow> f x st)"

definition subscript :: "(string \<times> 'v) list \<Rightarrow> string \<Rightarrow> error + 'v" where
  \<comment> \<open>\<open>d[k]\<close> on a dictionary or on a row: a missing key raises.\<close>
  "subscript d k = (case map_of d k of None \<Rightarrow> Inl KeyError | Some v \<Rightarrow> Inr v)"

text \<open>
  The labels are Russian string literals in the source.  They are written here in Latin
  transliteration and named after their meaning; only their equality is ever inspected.
\<close>

definition Uptrend :: string where "Uptrend = ''Voskhodyashchiy''"
definition Downtrend :: string where "Downtrend = ''Niskhodyashchiy''"
definition Sideways :: string where "Sideways = ''Bokovoy''"
definition GoldenCross :: string where "GoldenCross = ''Voskhodyashchiy (Golden Cross)''"
definition DeathCross :: string where "DeathCross = ''Niskhodyashchiy (Death Cross)''"
definition LongNeutral :: string where "LongNeutral = ''Neytralnyy''"
definition Overbought :: string where "Overbought = ''Perekuplennost''"
definition Oversold :: string where "Oversold = ''Pereprodannost''"
definition Neutral :: string where "Neutral = ''Neytralno''"
definition Bullish :: string where "Bullish = ''Bychiy''"
definition Bearish :: string where "Bearish = ''Medvezhiy''"
definition AboveBand :: string where
  "AboveBand = ''Vyshe verkhney polosy (perekuplennost)''"
definition BelowBand :: string where
  "BelowBand = ''Nizhe nizhney polosy (pereprodannost)''"
definition WithinBands :: string where "WithinBands = ''V predelakh polos''"
definition BUY :: string where "BUY = ''POKUPAT''"
definition SELL :: string where "SELL = ''PRODAVAT''"
definition HOLD :: string where "HOLD = ''DERZHAT''"

section \<open>Data frames\<close>

text \<open>
  The input is a pandas DataFrame that contains the OHLCV columns (the docstring of
  \<open>__init__\<close>), one row per bar, indexed by date.  Any further column, in particular every
  indicator column the analyzer attaches, is kept by name in insertion order.
\<close>

record bar =
  Date :: int
  Open :: float64
  High :: float64
  Low :: float64
  Close :: float64
  Volume :: float64

type_synonym column = "float64 list"

record frame =
  bars :: "bar list"
  extras :: "(string \<times> column) list"

type_synonym row = "(string \<times> float64) list"

definition has_column :: "frame \<Rightarrow> string \<Rightarrow> bool" where
  \<comment> \<open>\<open>k in df.columns\<close>\<close>
  "has_column df k =
     (k \<in> {''Open'', ''High'', ''Low'', ''Close'', ''Volume''} \<or> map_of (extras df) k \<noteq> None)"

definition cell :: "column \<Rightarrow> nat \<Rightarrow> float64" where
  \<comment> \<open>pandas aligns an assigned column to the index of the frame; a position the column
      does not cover reads as NaN.\<close>
  "cell c i = (if i < length c then c ! i else NaN)"

definition row_at :: "frame \<Rightarrow> nat \<Rightarrow> row" where
  "row_at df i =
     [(''Open'', Open (bars df ! i)), (''High'', High (bars df ! i)),
      (''Low'', Low (bars df ! i)), (''Close'', Close (bars df ! i)),
      (''Volume'', Volume (bars df ! i))]
     @ map (\<lambda>(k, c). (k, cell c i)) (extras df)"

definition iloc :: "frame \<Rightarrow> int \<Rightarrow> error + row" where
  \<comment> \<open>\<open>df.iloc[i]\<close>: a negative position counts from the end, a position outside the
      frame raises IndexError.\<close>
  "iloc df i =
     (let n = int (length (bars df));
          j = (if i < 0 then n + i else i)
      in if 0 \<le> j \<and> j < n then Inr (row_at df (nat j)) else Inl IndexError)"

definition to_dict :: "row \<Rightarrow> dict" where
  "to_dict r = map (\<lambda>(k, x). (k, Num x)) r"

definition dropna :: "column \<Rightarrow> column" where
  "dropna c = filter (\<lambda>x. x \<noteq> NaN) c"

section \<open>The numeric libraries\<close>

text \<open>
  The indicator classes of the \<open>ta\<close> package, the pandas column operations and the NumPy
  functions are not part of the repository.  They are a parameter of the model: one field
  per library function the analyzer calls, named as in the source, with the window
  arguments the source passes.  A field gives the column a call returns.  One call of the
  analyzer is known to raise: see \<open>AverageTrueRange\<close> below.  The others return on every
  series, the empty one included.
\<close>

record numlib =
  sma_indicator :: "nat \<Rightarrow> column \<Rightarrow> column"
  ema_indicator :: "nat \<Rightarrow> column \<Rightarrow> column"
  macd :: "column \<Rightarrow> column"
  macd_signal :: "column \<Rightarrow> column"
  macd_diff :: "column \<Rightarrow> column"
  rsi :: "nat \<Rightarrow> column \<Rightarrow> column"
  bollinger_hband :: "nat \<Rightarrow> nat \<Rightarrow> column \<Rightarrow> column"
  bollinger_mavg :: "nat \<Rightarrow> nat \<Rightarrow> column \<Rightarrow> column"
  bollinger_lband :: "nat \<Rightarrow> nat \<Rightarrow> column \<Rightarrow> column"
  stoch :: "nat \<Rightarrow> nat \<Rightarrow> column \<Rightarrow> column \<Rightarrow> column \<Rightarrow> column"
  stoch_signal :: "nat \<Rightarrow> nat \<Rightarrow> column \<Rightarrow> column \<Rightarrow> column \<Rightarrow> column"
  average_true_range :: "nat \<Rightarrow> column \<Rightarrow> column \<Rightarrow> column \<Rightarrow> column"
  on_balance_volume :: "column \<Rightarrow> column \<Rightarrow> column"
  pct_change :: "column \<Rightarrow> column"
  diff :: "column \<Rightarrow> column"
  std :: "column \<Rightarrow> float64"
  np_sqrt :: "float64 \<Rightarrow> float64"
  fmul :: "float64 \<Rightarrow> float64 \<Rightarrow> float64"

section \<open>The analyzer object and the store\<close>

text \<open>
  DataFrames are mutable objects, so they live in a store and are referred to by address.
  \<open>copy\<close> allocates a new frame; \<open>df[k] = c\<close> writes into the frame at an address.
\<close>

type_synonym heap = "frame list"

record analyzer =
  data :: nat
  signals :: dict

type_synonym state = "heap \<times> analyzer"

definition frame_of :: "state \<Rightarrow> frame" where
  "frame_of st = fst st ! data (snd st)"

definition df_copy :: "heap \<Rightarrow> nat \<Rightarrow> heap \<times> nat" where
  "df_copy h a = (h @ [h ! a], length h)"

definition setitem :: "heap \<Rightarrow> nat \<Rightarrow> string \<Rightarrow> column \<Rightarrow> heap" where
  "setitem h d k c = h[d := (h ! d)\<lparr>extras := AList.update k c (extras (h ! d))\<rparr>]"

definition init :: "heap \<Rightarrow> nat \<Rightarrow> state" where
  \<comment> \<open>\<open>StockAnalyzer(data)\<close>, with \<open>data\<close> the frame at address \<open>a\<close>\<close>
  "init h a = (let (h', d) = df_copy h a in (h', \<lparr>data = d, signals = []\<rparr>))"

definition col_Close :: "frame \<Rightarrow> column" where "col_Close df = map Close (bars df)"
definition col_High :: "frame \<Rightarrow> column" where "col_High df = map High (bars df)"
definition col_Low :: "frame \<Rightarrow> column" where "col_Low df = map Low (bars df)"
definition col_Volume :: "frame \<Rightarrow> column" where "col_Volume df = map Volume (bars df)"

definition AverageTrueRange ::
  "numlib \<Rightarrow> nat \<Rightarrow> column \<Rightarrow> column \<Rightarrow> column \<Rightarrow> error + column" where
  \<comment> \<open>\<open>AverageTrueRange(high, low, close, window).average_true_range()\<close>.  The class of the
      \<open>ta\<close> package allocates \<open>len(close)\<close> zeros and first writes position \<open>window - 1\<close>;
      on a series shorter than the window that write is out of bounds and raises
      IndexError.\<close>
  "AverageTrueRange L w high low close =
     (if length close < w then Inl IndexError
      else Inr (average_true_range L w high low close))"

definition indicator_columns :: "numlib \<Rightarrow> (string \<times> (frame \<Rightarrow> error + column)) list" where
  \<comment> \<open>the assignments \<open>df[k] = ...\<close> of \<open>add_technical_indicators\<close>, in source order\<close>
  "indicator_columns L =
    [(''SMA_20'', \<lambda>df. Inr (sma_indicator L 20 (col_Close df))),
     (''SMA_50'', \<lambda>df. Inr (sma_indicator L 50 (col_Close df))),
     (''SMA_200'', \<lambda>df. Inr (sma_indicator L 200 (col_Close df))),
     (''EMA_12'', \<lambda>df. Inr (ema_indicator L 12 (col_Close df))),
     (''EMA_26'', \<lambda>df. Inr (ema_indicator L 26 (col_Close df))),
     (''MACD'', \<lambda>df. Inr (macd L (col_Close df))),
     (''MACD_Signal'', \<lambda>df. Inr (macd_signal L (col_Close df))),
     (''MACD_Diff'', \<lambda>df. Inr (macd_diff L (col_Close df))),
     (''RSI'', \<lambda>df. Inr (rsi L 14 (col_Close df))),
     (''BB_Upper'', \<lambda>df. Inr (bollinger_hband L 20 2 (col_Close df))),
     (''BB_Middle'', \<lambda>df. Inr (bollinger_mavg L 20 2 (col_Close df))),
     (''BB_Lower'', \<lambda>df. Inr (bollinger_lband L 20 2 (col_Close df))),
     (''Stoch_K'', \<lambda>df. Inr (stoch L 14 3 (col_High df) (col_Low df) (col_Close df))),
     (''Stoch_D'', \<lambda>df. Inr (stoch_signal L 14 3 (col_High df) (col_Low df) (col_Close df))),
     (''ATR'', \<lambda>df. AverageTrueRange L 14 (col_High df) (col_Low df) (col_Close df)),
     (''OBV'', \<lambda>df. Inr (on_balance_volume L (col_Close df) (col_Volume df))),
     (''Daily_Return'',
      \<lambda>df. Inr (map (\<lambda>x. fmul L x (Finite 100)) (pct_change L (col_Close df)))),
     (''Price_Change'', \<lambda>df. Inr (diff L (col_Close df)))]"

fun assign_all ::
  "heap \<Rightarrow> nat \<Rightarrow> (string \<times> (frame \<Rightarrow> error + column)) list \<Rightarrow> error option \<times> heap" where
  \<comment> \<open>the assignments in order, into the frame at \<open>d\<close>; the first call that raises ends them\<close>
  "assign_all h d [] = (None, h)"
| "assign_all h d ((k, f) # as) =
     (case f (h ! d) of
        Inl e \<Rightarrow> (Some e, h)
      | Inr c \<Rightarrow> assign_all (setitem h d k c) d as)"

definition add_technical_indicators :: "numlib \<Rightarrow> state \<Rightarrow> (error + nat) \<times> state" where
  \<comment> \<open>\<open>df\<close> is a local copy until \<open>self.data = df\<close>.  When a call raises, nothing refers to
      the copy any more and it leaves the store; the object is as it was.\<close>
  "add_technical_indicators L st =
     (let (h1, df) = df_copy (fst st) (data (snd st))
      in case assign_all h1 df (indicator_columns L) of
           (Some e, h2) \<Rightarrow> (Inl e, (take df h2, snd st))
         | (None, h2) \<Rightarrow> (Inr df, (h2, (snd st)\<lparr>data := df\<rparr>)))"

definition ensure :: "numlib \<Rightarrow> string \<Rightarrow> state \<Rightarrow> (error + unit) \<times> state" where
  \<comment> \<open>\<open>if k not in self.data.columns: self.add_technical_indicators()\<close>\<close>
  "ensure L k st =
     (if \<not> has_column (frame_of st) k
      then thenE (add_technical_indicators L st) (\<lambda>df st'. (Inr (), st'))
      else (Inr (), st))"

section \<open>Trend, momentum and volatility\<close>

definition short_term_trend :: "float64 \<Rightarrow> float64 \<Rightarrow> float64 \<Rightarrow> string" where
  \<comment> \<open>the chained comparison \<open>a > b > c\<close> is \<open>a > b and b > c\<close>\<close>
  "short_term_trend close sma_20 sma_50 =
     (if fgt close sma_20 \<and> fgt sma_20 sma_50 then Uptrend
      else if flt close sma_20 \<and> flt sma_20 sma_50 then Downtrend
      else Sideways)"

definition long_term_trend :: "float64 \<Rightarrow> float64 \<Rightarrow> string" where
  "long_term_trend sma_50 sma_200 =
     (if fgt sma_50 sma_200 then GoldenCross
      else if flt sma_50 sma_200 then DeathCross
      else LongNeutral)"

definition trend_info :: "frame \<Rightarrow> error + dict" where
  "trend_info df =
     bindE (iloc df (- 1)) (\<lambda>latest.
     bindE (iloc df (- 2)) (\<lambda>prev.
     bindE (subscript latest ''Close'') (\<lambda>close.
     bindE (subscript latest ''SMA_20'') (\<lambda>sma_20.
     bindE (subscript latest ''SMA_50'') (\<lambda>sma_50.
     bindE (subscript latest ''SMA_200'') (\<lambda>sma_200.
       let info = [(''current_price'', Num close), (''sma_20'', Num sma_20),
                   (''sma_50'', Num sma_50), (''sma_200'', Num sma_200)];
           info = AList.update ''short_term_trend''
                    (Str (short_term_trend close sma_20 sma_50)) info;
           info = AList.update ''long_term_trend''
                    (Str (long_term_trend sma_50 sma_200)) info
       in Inr info))))))"

definition analyze_trend :: "numlib \<Rightarrow> state \<Rightarrow> (error + dict) \<times> state" where
  "analyze_trend L st =
     thenE (ensure L ''SMA_20'' st) (\<lambda>u st1. (trend_info (frame_of st1), st1))"

definition rsi_signal :: "float64 \<Rightarrow> string" where
  "rsi_signal rsi_v =
     (if fgt rsi_v (Finite 70) then Overbought
      else if flt rsi_v (Finite 30) then Oversold
      else Neutral)"

definition macd_label :: "float64 \<Rightarrow> float64 \<Rightarrow> string" where
  "macd_label macd_v macd_signal_v = (if fgt macd_v macd_signal_v then Bullish else Bearish)"

definition stoch_label :: "float64 \<Rightarrow> string" where
  "stoch_label stoch_k =
     (if fgt stoch_k (Finite 80) then Overbought
      else if flt stoch_k (Finite 20) then Oversold
      else Neutral)"

definition momentum_info :: "frame \<Rightarrow> error + dict" where
  "momentum_info df =
     bindE (iloc df (- 1)) (\<lambda>latest.
     bindE (subscript latest ''RSI'') (\<lambda>rsi_v.
     bindE (subscript latest ''MACD'') (\<lambda>macd_v.
     bindE (subscript latest ''MACD_Signal'') (\<lambda>macd_signal_v.
     bindE (subscript latest ''Stoch_K'') (\<lambda>stoch_k.
     bindE (subscript latest ''Stoch_D'') (\<lambda>stoch_d.
       let info = [(''rsi'', Num rsi_v), (''macd'', Num macd_v),
                   (''macd_signal'', Num macd_signal_v),
                   (''stoch_k'', Num stoch_k), (''stoch_d'', Num stoch_d)];
           info = AList.update ''rsi_signal'' (Str (rsi_signal rsi_v)) info;
           info = AList.update ''macd_signal'' (Str (macd_label macd_v macd_signal_v)) info;
           info = AList.update ''stoch_signal'' (Str (stoch_label stoch_k)) info
       in Inr info))))))"

definition analyze_momentum :: "numlib \<Rightarrow> state \<Rightarrow> (error + dict) \<times> state" where
  "analyze_momentum L st =
     thenE (ensure L ''RSI'' st) (\<lambda>u st1. (momentum_info (frame_of st1), st1))"

definition historical_volatility :: "numlib \<Rightarrow> frame \<Rightarrow> float64" where
  \<comment> \<open>\<open>returns.std() * np.sqrt(252) * 100\<close> with
      \<open>returns = self.data['Close'].pct_change().dropna()\<close>\<close>
  "historical_volatility L df =
     fmul L (fmul L (std L (dropna (pct_change L (col_Close df)))) (np_sqrt L (Finite 252)))
       (Finite 100)"

definition bb_position :: "float64 \<Rightarrow> float64 \<Rightarrow> float64 \<Rightarrow> string" where
  "bb_position close bb_upper bb_lower =
     (if fgt close bb_upper then AboveBand
      else if flt close bb_lower then BelowBand
      else WithinBands)"

definition volatility_info :: "numlib \<Rightarrow> frame \<Rightarrow> error + dict" where
  "volatility_info L df =
     bindE (iloc df (- 1)) (\<lambda>latest.
     let hv = historical_volatility L df in
     bindE (subscript latest ''Close'') (\<lambda>close.
     bindE (subscript latest ''BB_Upper'') (\<lambda>bb_upper.
     bindE (subscript latest ''BB_Middle'') (\<lambda>bb_middle.
     bindE (subscript latest ''BB_Lower'') (\<lambda>bb_lower.
     bindE (subscript latest ''ATR'') (\<lambda>atr.
       let info = [(''current_price'', Num close), (''bb_upper'', Num bb_upper),
                   (''bb_middle'', Num bb_middle), (''bb_lower'', Num bb_lower),
                   (''atr'', Num atr), (''historical_volatility'', Num hv)];
           info = AList.update ''bb_position''
                    (Str (bb_position close bb_upper bb_lower)) info
       in Inr info))))))"

definition analyze_volatility :: "numlib \<Rightarrow> state \<Rightarrow> (error + dict) \<times> state" where
  "analyze_volatility L st =
     thenE (ensure L ''BB_Upper'' st) (\<lambda>u st1. (volatility_info L (frame_of st1), st1))"

section \<open>Signals\<close>

fun str_nat :: "nat \<Rightarrow> string" where
  \<comment> \<open>the decimal digits an f-string prints for a non-negative integer\<close>
  "str_nat n =
     (if n < 10 then [''0123456789'' ! n]
      else str_nat (n div 10) @ [''0123456789'' ! (n mod 10)])"

declare str_nat.simps [simp del]

definition vote_trend :: "pyval \<Rightarrow> nat \<times> nat \<Rightarrow> nat \<times> nat" where
  "vote_trend t v =
     (if t = Str Uptrend then (fst v + 1, snd v)
      else if t = Str Downtrend then (fst v, snd v + 1)
      else v)"

definition vote_rsi :: "pyval \<Rightarrow> nat \<times> nat \<Rightarrow> nat \<times> nat" where
  "vote_rsi r v =
     (if r = Str Oversold then (fst v + 1, snd v)
      else if r = Str Overbought then (fst v, snd v + 1)
      else v)"

definition vote_macd :: "pyval \<Rightarrow> nat \<times> nat \<Rightarrow> nat \<times> nat" where
  "vote_macd m v = (if m = Str Bullish then (fst v + 1, snd v) else (fst v, snd v + 1))"

definition tally :: "pyval \<Rightarrow> pyval \<Rightarrow> pyval \<Rightarrow> nat \<times> nat" where
  \<comment> \<open>\<open>(buy_signals, sell_signals)\<close> after the three vote statements\<close>
  "tally t r m = vote_macd m (vote_rsi r (vote_trend t (0, 0)))"

definition recommendation :: "nat \<Rightarrow> nat \<Rightarrow> string" where
  "recommendation buy_signals sell_signals =
     (if buy_signals > sell_signals then BUY
      else if sell_signals > buy_signals then SELL
      else HOLD)"

definition confidence :: "nat \<Rightarrow> nat \<Rightarrow> string" where
  \<comment> \<open>\<open>f"{max(buy_signals, sell_signals)}/3"\<close>\<close>
  "confidence buy_signals sell_signals = str_nat (max buy_signals sell_signals) @ ''/3''"

definition decide :: "dict \<Rightarrow> dict \<Rightarrow> dict \<Rightarrow> error + dict" where
  "decide trend momentum volatility =
     bindE (subscript trend ''short_term_trend'') (\<lambda>t.
     bindE (subscript momentum ''rsi_signal'') (\<lambda>r.
     bindE (subscript momentum ''macd_signal'') (\<lambda>m.
     bindE (subscript volatility ''bb_position'') (\<lambda>b.
       let sig = [(''trend'', t), (''momentum'', r), (''macd'', m), (''volatility'', b)];
           (buy_signals, sell_signals) = tally t r m;
           sig = AList.update ''recommendation''
                   (Str (recommendation buy_signals sell_signals)) sig;
           sig = AList.update ''confidence'' (Str (confidence buy_signals sell_signals)) sig
       in Inr sig))))"

definition generate_signals :: "numlib \<Rightarrow> state \<Rightarrow> (error + dict) \<times> state" where
  "generate_signals L st =
     thenE (analyze_trend L st) (\<lambda>trend st1.
     thenE (analyze_momentum L st1) (\<lambda>momentum st2.
     thenE (analyze_volatility L st2) (\<lambda>volatility st3.
       case decide trend momentum volatility of
         Inl e \<Rightarrow> (Inl e, st3)
       | Inr sig \<Rightarrow> (Inr sig, (fst st3, (snd st3)\<lparr>signals := sig\<rparr>)))))"

section \<open>The summary\<close>

definition get_summary :: "numlib \<Rightarrow> state \<Rightarrow> (error + dict) \<times> state" where
  "get_summary L st =
     thenE (add_technical_indicators L st) (\<lambda>df st0.
     thenE (analyze_trend L st0) (\<lambda>trend st1.
     thenE (analyze_momentum L st1) (\<lambda>momentum st2.
     thenE (analyze_volatility L st2) (\<lambda>volatility st3.
     thenE (generate_signals L st3) (\<lambda>sig st4.
       case iloc (frame_of st4) (- 1) of
         Inl e \<Rightarrow> (Inl e, st4)
       | Inr latest \<Rightarrow>
           (Inr [(''trend'', Dict trend), (''momentum'', Dict momentum),
                 (''volatility'', Dict volatility), (''signals'', Dict sig),
                 (''latest_data'', Dict (to_dict latest))], st4))))))"

section \<open>Sequences of calls\<close>

text \<open>
  The methods a caller can invoke on an analyzer.  A call leaves the object in the state it
  had when the method returned or raised; the caller sees only the store and the object.
\<close>

datatype call =
  AddTechnicalIndicators | AnalyzeTrend | AnalyzeMomentum | AnalyzeVolatility
  | GenerateSignals | GetSummary

fun call_op :: "numlib \<Rightarrow> call \<Rightarrow> state \<Rightarrow> state" where
  "call_op L AddTechnicalIndicators st = snd (add_technical_indicators L st)"
| "call_op L AnalyzeTrend st = snd (analyze_trend L st)"
| "call_op L AnalyzeMomentum st = snd (analyze_momentum L st)"
| "call_op L AnalyzeVolatility st = snd (analyze_volatility L st)"
| "call_op L GenerateSignals st = snd (generate_signals L st)"
| "call_op L GetSummary st = snd (get_summary L st)"

definition run :: "numlib \<Rightarrow> call list \<Rightarrow> state \<Rightarrow> state" where
  "run L cs st = fold (call_op L) cs st"

section \<open>The indicator engine of the specification\<close>

text \<open>
  Modelled from the spec: the Indicator Engine of section 4.2 and the volatility formula of
  section 4.5, in exact real arithmetic.  It stands for the \<open>ta\<close>, pandas and NumPy functions,
  which are not part of the repository, wherever a closed instance of the library is needed.
  A value is a finite real or undefined; NaN and the infinities of a column are read as
  undefined (section 3 admits finite values only).  Where the specification leaves the
  start of a recurrence open, the recurrence starts from the mean of the first full window,
  as it says for the EMA.
\<close>

definition known :: "float64 \<Rightarrow> real option" where
  "known x = (case x of Finite r \<Rightarrow> Some r | _ \<Rightarrow> None)"

definition float_of :: "real option \<Rightarrow> float64" where
  "float_of v = (case v of Some r \<Rightarrow> Finite r | None \<Rightarrow> NaN)"

definition lift2 :: "(real \<Rightarrow> real \<Rightarrow> real) \<Rightarrow> real option \<Rightarrow> real option \<Rightarrow> real option" where
  \<comment> \<open>an undefined operand makes the result undefined (end of section 4.2)\<close>
  "lift2 f a b = (case (a, b) of (Some x, Some y) \<Rightarrow> Some (f x y) | _ \<Rightarrow> None)"

definition mean_opt :: "real option list \<Rightarrow> real option" where
  "mean_opt vs =
     (case those vs of
        Some (y # ys) \<Rightarrow> Some (sum_list (y # ys) / real (length (y # ys)))
      | _ \<Rightarrow> None)"

definition window :: "nat \<Rightarrow> 'a list \<Rightarrow> nat \<Rightarrow> 'a list" where
  \<comment> \<open>the trailing \<open>w\<close> entries up to and including position \<open>t\<close>\<close>
  "window w xs t = take w (drop (t + 1 - w) xs)"

definition sma :: "nat \<Rightarrow> real option list \<Rightarrow> real option list" where
  \<comment> \<open>SMA(n): the mean over the trailing \<open>n\<close> bars; undefined for the first \<open>n - 1\<close> positions\<close>
  "sma w xs = map (\<lambda>t. if t + 1 < w then None else mean_opt (window w xs t)) [0..<length xs]"

fun smooth :: "(real \<Rightarrow> real \<Rightarrow> real) \<Rightarrow> real option \<Rightarrow> real option list \<Rightarrow> real option list" where
  "smooth f prev [] = []"
| "smooth f prev (x # xs) = lift2 f prev x # smooth f (lift2 f prev x) xs"

definition seeded :: "nat \<Rightarrow> (real \<Rightarrow> real \<Rightarrow> real) \<Rightarrow> real option list \<Rightarrow> real option list" where
  \<comment> \<open>undefined before position \<open>w - 1\<close>, the mean of the first \<open>w\<close> values there, and the
      recurrence \<open>f previous value\<close> from then on\<close>
  "seeded w f xs =
     (if w = 0 \<or> length xs < w then map (\<lambda>x. None) xs
      else replicate (w - 1) None
           @ mean_opt (take w xs) # smooth f (mean_opt (take w xs)) (drop w xs))"

definition from_first_defined ::
  "(real option list \<Rightarrow> real option list) \<Rightarrow> real option list \<Rightarrow> real option list" where
  \<comment> \<open>an indicator of an indicator starts where its input becomes defined\<close>
  "from_first_defined g xs =
     replicate (length (takeWhile (\<lambda>x. x = None) xs)) None
     @ g (dropWhile (\<lambda>x. x = None) xs)"

definition ema :: "nat \<Rightarrow> real option list \<Rightarrow> real option list" where
  \<comment> \<open>EMA(n): \<open>\<alpha> = 2 / (n + 1)\<close>, seed SMA(n), then \<open>\<alpha> close + (1 - \<alpha>) EMA\<close>\<close>
  "ema w = seeded w (\<lambda>prev x. 2 / (real w + 1) * x + (1 - 2 / (real w + 1)) * prev)"

definition wilder :: "nat \<Rightarrow> real option list \<Rightarrow> real option list" where
  \<comment> \<open>Wilder's recurrence: \<open>avg[t] = (avg[t-1] (n - 1) + value[t]) / n\<close>\<close>
  "wilder w = seeded w (\<lambda>prev v. (prev * (real w - 1) + v) / real w)"

definition macd_line :: "real option list \<Rightarrow> real option list" where
  "macd_line xs = map2 (lift2 (-)) (ema 12 xs) (ema 26 xs)"

definition macd_signal_line :: "real option list \<Rightarrow> real option list" where
  "macd_signal_line xs = from_first_defined (ema 9) (macd_line xs)"

definition macd_hist :: "real option list \<Rightarrow> real option list" where
  "macd_hist xs = map2 (lift2 (-)) (macd_line xs) (macd_signal_line xs)"

definition deltas :: "real option list \<Rightarrow> real option list" where
  \<comment> \<open>\<open>close[t] - close[t-1]\<close> for \<open>t \<ge> 1\<close>\<close>
  "deltas xs = map2 (lift2 (\<lambda>p c. c - p)) xs (tl xs)"

definition rsi_value :: "real \<Rightarrow> real \<Rightarrow> real" where
  "rsi_value avg_gain avg_loss =
     (if avg_loss = 0 then (if avg_gain > 0 then 100 else 50)
      else 100 - 100 / (1 + avg_gain / avg_loss))"

definition rsi_engine :: "nat \<Rightarrow> real option list \<Rightarrow> real option list" where
  "rsi_engine w xs =
     (if xs = [] then []
      else None # map2 (lift2 rsi_value)
                    (wilder w (map (map_option (max 0)) (deltas xs)))
                    (wilder w (map (map_option (\<lambda>d. max 0 (- d))) (deltas xs))))"

definition pop_std :: "real option list \<Rightarrow> real option" where
  "pop_std vs =
     (case (those vs, mean_opt vs) of
        (Some ys, Some m) \<Rightarrow> Some (sqrt (sum_list (map (\<lambda>y. (y - m)\<^sup>2) ys) / real (length ys)))
      | _ \<Rightarrow> None)"

definition bb_band :: "nat \<Rightarrow> nat \<Rightarrow> real option list \<Rightarrow> real option list" where
  "bb_band w k xs =
     map (\<lambda>t. if t + 1 < w then None else map_option ((*) (real k)) (pop_std (window w xs t)))
       [0..<length xs]"

definition stoch_k_engine ::
  "nat \<Rightarrow> real option list \<Rightarrow> real option list \<Rightarrow> real option list \<Rightarrow> real option list" where
  "stoch_k_engine w highs lows closes =
     map (\<lambda>t. if t + 1 < w then None
              else (case (those (window w lows t), those (window w highs t), closes ! t) of
                      (Some (l # ls), Some (h # hs), Some c) \<Rightarrow>
                        Some (if fold max hs h - fold min ls l = 0 then 50
                              else 100 * (c - fold min ls l) / (fold max hs h - fold min ls l))
                    | _ \<Rightarrow> None))
       [0..<length closes]"

definition true_range ::
  "real option list \<Rightarrow> real option list \<Rightarrow> real option list \<Rightarrow> real option list" where
  "true_range highs lows closes =
     map (\<lambda>t. if t = 0 then lift2 (-) (highs ! t) (lows ! t)
              else (case (highs ! t, lows ! t, closes ! (t - 1)) of
                      (Some h, Some l, Some pc) \<Rightarrow> Some (max (h - l) (max \<bar>h - pc\<bar> \<bar>l - pc\<bar>))
                    | _ \<Rightarrow> None))
       [0..<length closes]"

fun obv_from :: "real option \<Rightarrow> real option \<Rightarrow> (real option \<times> real option) list \<Rightarrow> real option list" where
  "obv_from acc prev [] = []"
| "obv_from acc prev ((c, v) # rest) =
     (let total' =
            (case (acc, prev, c, v) of
               (Some a, Some p, Some x, Some y) \<Rightarrow>
                 Some (if x > p then a + y else if x < p then a - y else a)
             | _ \<Rightarrow> None)
      in total' # obv_from total' c rest)"

definition obv_engine :: "real option list \<Rightarrow> real option list \<Rightarrow> real option list" where
  \<comment> \<open>a running total; the first bar contributes 0\<close>
  "obv_engine closes volumes =
     (case zip closes volumes of
        [] \<Rightarrow> []
      | (c, v) # rest \<Rightarrow> Some 0 # obv_from (Some 0) c rest)"

definition fractional_returns :: "real option list \<Rightarrow> real option list" where
  \<comment> \<open>\<open>close[t] / close[t-1] - 1\<close>, undefined at \<open>t = 0\<close>\<close>
  "fractional_returns xs =
     (if xs = [] then []
      else None # map2 (\<lambda>p c. case (p, c) of
                                (Some x, Some y) \<Rightarrow> (if x = 0 then None else Some (y / x - 1))
                              | _ \<Rightarrow> None) xs (tl xs))"

definition price_changes :: "real option list \<Rightarrow> real option list" where
  "price_changes xs = (if xs = [] then [] else None # deltas xs)"

definition sample_std :: "real option list \<Rightarrow> real option" where
  \<comment> \<open>the sample standard deviation: divisor \<open>n - 1\<close>, undefined for fewer than two values\<close>
  "sample_std vs =
     (case (those vs, mean_opt vs) of
        (Some ys, Some m) \<Rightarrow>
          (if length ys < 2 then None
           else Some (sqrt (sum_list (map (\<lambda>y. (y - m)\<^sup>2) ys) / (real (length ys) - 1))))
      | _ \<Rightarrow> None)"

definition spec_lib :: numlib where
  "spec_lib =
     \<lparr>sma_indicator = (\<lambda>w close. map float_of (sma w (map known close))),
      ema_indicator = (\<lambda>w close. map float_of (ema w (map known close))),
      macd = (\<lambda>close. map float_of (macd_line (map known close))),
      macd_signal = (\<lambda>close. map float_of (macd_signal_line (map known close))),
      macd_diff = (\<lambda>close. map float_of (macd_hist (map known close))),
      rsi = (\<lambda>w close. map float_of (rsi_engine w (map known close))),
      bollinger_hband =
        (\<lambda>w k close. map float_of
           (map2 (lift2 (+)) (sma w (map known close)) (bb_band w k (map known close)))),
      bollinger_mavg = (\<lambda>w k close. map float_of (sma w (map known close))),
      bollinger_lband =
        (\<lambda>w k close. map float_of
           (map2 (lift2 (-)) (sma w (map known close)) (bb_band w k (map known close)))),
      stoch =
        (\<lambda>w s high low close. map float_of
           (stoch_k_engine w (map known high) (map known low) (map known close))),
      stoch_signal =
        (\<lambda>w s high low close. map float_of
           (from_first_defined (sma s)
              (stoch_k_engine w (map known high) (map known low) (map known close)))),
      average_true_range =
        (\<lambda>w high low close. map float_of
           (wilder w (true_range (map known high) (map known low) (map known close)))),
      on_balance_volume =
        (\<lambda>close volume. map float_of (obv_engine (map known close) (map known volume))),
      pct_change = (\<lambda>close. map float_of (fractional_returns (map known close))),
      diff = (\<lambda>close. map float_of (price_changes (map known close))),
      std = (\<lambda>c. float_of (sample_std (map known c))),
      np_sqrt = (\<lambda>x. float_of (case known x of
                                  Some r \<Rightarrow> (if r < 0 then None else Some (sqrt r))
                                | None \<Rightarrow> None)),
      fmul = (\<lambda>a b. float_of (lift2 (*) (known a) (known b)))\<rparr>"

section \<open>Concrete inputs\<close>

text \<open>A bar of a flat market; flat series of fourteen bars and of one bar; the empty series.\<close>

definition flat_bar :: "int \<Rightarrow> bar" where
  "flat_bar d =
     \<lparr>Date = d, Open = Finite 100, High = Finite 100, Low = Finite 100, Close = Finite 100,
      Volume = Finite 1000\<rparr>"

definition fourteen_bars :: frame where
  "fourteen_bars =
     \<lparr>bars = map flat_bar [0, 1, 2, 3, 4, 5, 6, 7, 8, 9, 10, 11, 12, 13], extras = []\<rparr>"

definition one_bar :: frame where
  "one_bar = \<lparr>bars = [flat_bar 0], extras = []\<rparr>"

definition empty_series :: frame where
  "empty_series = \<lparr>bars = [], extras = []\<rparr>"

text \<open>
  A frame that already carries its indicator columns, as \<open>analyzer.data\<close> does after a
  run: two bars closing at 101 and 102, the averages below the close, a neutral RSI, and
  the MACD line at \<open>m\<close> against a signal line at 1.
\<close>

definition charted :: "real \<Rightarrow> frame" where
  "charted m =
     \<lparr>bars = [\<lparr>Date = 0, Open = Finite 100, High = Finite 102, Low = Finite 99,
               Close = Finite 101, Volume = Finite 1000\<rparr>,
              \<lparr>Date = 1, Open = Finite 101, High = Finite 103, Low = Finite 100,
               Close = Finite 102, Volume = Finite 1200\<rparr>],
      extras = [(''SMA_20'', [NaN, Finite 101]), (''SMA_50'', [NaN, Finite 100]),
                (''SMA_200'', [NaN, Finite 99]), (''MACD'', [NaN, Finite m]),
                (''MACD_Signal'', [NaN, Finite 1]), (''RSI'', [NaN, Finite 50]),
                (''BB_Upper'', [NaN, Finite 110]), (''BB_Middle'', [NaN, Finite 101]),
                (''BB_Lower'', [NaN, Finite 90]), (''Stoch_K'', [NaN, Finite 50]),
                (''Stoch_D'', [NaN, Finite 50]), (''ATR'', [NaN, Finite 3])]\<rparr>"

section \<open>The vote rules as the specification words them\<close>

text \<open>
  Section 4.6 casts the votes on the classifications of the trend and momentum analyzers:
  an Uptrend, an Oversold RSI and a Bullish MACD vote to buy; a Downtrend, an Overbought RSI
  and a Bearish MACD vote to sell.  These functions follow that wording and read the
  dictionaries that \<open>analyze_trend\<close> and \<open>analyze_momentum\<close> return; the counters of the
  source are \<open>tally\<close>.
\<close>

definition buy_votes :: "dict \<Rightarrow> dict \<Rightarrow> nat" where
  "buy_votes trend momentum =
     of_bool (map_of trend ''short_term_trend'' = Some (Str Uptrend))
     + of_bool (map_of momentum ''rsi_signal'' = Some (Str Oversold))
     + of_bool (map_of momentum ''macd_signal'' = Some (Str Bullish))"

definition sell_votes :: "dict \<Rightarrow> dict \<Rightarrow> nat" where
  "sell_votes trend momentum =
     of_bool (map_of trend ''short_term_trend'' = Some (Str Downtrend))
     + of_bool (map_of momentum ''rsi_signal'' = Some (Str Overbought))
     + of_bool (map_of momentum ''macd_signal'' = Some (Str Bearish))"



section \<open>The frame that \<open>add_technical_indicators\<close> builds\<close>

text \<open>
  The assignments of \<open>add_technical_indicators\<close> all go to the fresh copy, so their
  combined effect is a function of the copied frame alone: whether a call raises, and the
  frame built so far.
\<close>

fun attach ::
  "(string \<times> (frame \<Rightarrow> error + column)) list \<Rightarrow> frame \<Rightarrow> error option \<times> frame" where
  "attach [] df = (None, df)"
| "attach ((k, f) # as) df =
     (case f df of
        Inl e \<Rightarrow> (Some e, df)
      | Inr c \<Rightarrow> attach as (df\<lparr>extras := AList.update k c (extras df)\<rparr>))"

definition augment :: "numlib \<Rightarrow> frame \<Rightarrow> frame" where
  "augment L df = snd (attach (indicator_columns L) df)"

definition ready :: "frame \<Rightarrow> bool" where
  \<comment> \<open>every column that a classification reads is present\<close>
  "ready df \<longleftrightarrow>
     map_of (extras df) ''SMA_20'' \<noteq> None \<and> map_of (extras df) ''SMA_50'' \<noteq> None
     \<and> map_of (extras df) ''SMA_200'' \<noteq> None \<and> map_of (extras df) ''RSI'' \<noteq> None
     \<and> map_of (extras df) ''MACD'' \<noteq> None \<and> map_of (extras df) ''MACD_Signal'' \<noteq> None
     \<and> map_of (extras df) ''Stoch_K'' \<noteq> None \<and> map_of (extras df) ''Stoch_D'' \<noteq> None
     \<and> map_of (extras df) ''BB_Upper'' \<noteq> None \<and> map_of (extras df) ''BB_Middle'' \<noteq> None
     \<and> map_of (extras df) ''BB_Lower'' \<noteq> None \<and> map_of (extras df) ''ATR'' \<noteq> None"

text \<open>
  Once the indicator columns are present, the analyses no longer touch the frame: the
  signals and the summary are functions of that frame.
\<close>

definition signals_of :: "numlib \<Rightarrow> frame \<Rightarrow> error + dict" where
  "signals_of L df =
     bindE (trend_info df) (\<lambda>trend.
     bindE (momentum_info df) (\<lambda>momentum.
     bindE (volatility_info L df) (\<lambda>volatility.
       decide trend momentum volatility)))"

definition summary_of :: "numlib \<Rightarrow> frame \<Rightarrow> error + dict" where
  "summary_of L df =
     bindE (trend_info df) (\<lambda>trend.
     bindE (momentum_info df) (\<lambda>momentum.
     bindE (volatility_info L df) (\<lambda>volatility.
     bindE (signals_of L df) (\<lambda>sig.
     bindE (iloc df (- 1)) (\<lambda>latest.
       Inr [(''trend'', Dict trend), (''momentum'', Dict momentum),
            (''volatility'', Dict volatility), (''signals'', Dict sig),
            (''latest_data'', Dict (to_dict latest))])))))"

section \<open>Basic facts\<close>

lemmas label_defs =
  Uptrend_def Downtrend_def Sideways_def GoldenCross_def DeathCross_def LongNeutral_def
  Overbought_def Oversold_def Neutral_def Bullish_def Bearish_def
  AboveBand_def BelowBand_def WithinBands_def BUY_def SELL_def HOLD_def

lemma bindE_Inr_iff: "bindE m f = Inr y \<longleftrightarrow> (\<exists>x. m = Inr x \<and> f x = Inr y)"
  by (cases m) (simp_all add: bindE_def)

lemma bindE_simps [simp]: "bindE (Inl e) f = Inl e" "bindE (Inr x) f = f x"
  by (simp_all add: bindE_def)

lemma thenE_simps [simp]:
  "thenE (Inl e, st) f = (Inl e, st)" "thenE (Inr x, st) f = f x st"
  by (simp_all add: thenE_def)

lemma thenE_Inr:
  assumes "thenE r f = (Inr y, st')"
  obtains x st where "r = (Inr x, st)" "f x st = (Inr y, st')"
  using assms by (cases r; cases "fst r") (auto simp: thenE_def)

lemma subscript_Inr_iff: "subscript d k = Inr v \<longleftrightarrow> map_of d k = Some v"
  by (simp add: subscript_def split: option.splits)

lemma label_distinct:
  "BUY \<noteq> SELL" "BUY \<noteq> HOLD" "SELL \<noteq> HOLD"
  "Uptrend \<noteq> Downtrend" "Uptrend \<noteq> Sideways" "Downtrend \<noteq> Sideways"
  "Overbought \<noteq> Oversold" "Overbought \<noteq> Neutral" "Oversold \<noteq> Neutral"
  "Bullish \<noteq> Bearish"
  by (simp_all add: label_defs)

lemma str_nat_digits:
  "str_nat 0 = ''0''" "str_nat 1 = ''1''" "str_nat 2 = ''2''" "str_nat 3 = ''3''"
  "str_nat (Suc 0) = ''1''"
  by (simp_all add: str_nat.simps)

lemma fgt_irrefl [simp]: "\<not> fgt x x"
  by (cases x) simp_all

lemma fgt_NaN [simp]: "\<not> fgt x NaN"
  by (cases x) simp_all

subsection \<open>The store\<close>

lemma frame_of_init [simp]: "frame_of (init h a) = h ! a"
  by (simp add: init_def df_copy_def frame_of_def)

lemma fst_init [simp]: "fst (init h a) = h @ [h ! a]"
  by (simp add: init_def df_copy_def)

lemma frame_of_signals [simp]: "frame_of (h, s\<lparr>signals := x\<rparr>) = frame_of (h, s)"
  by (simp add: frame_of_def)

lemma setitem_fresh:
  "setitem (h @ [df]) (length h) k c = h @ [df\<lparr>extras := AList.update k c (extras df)\<rparr>]"
  by (simp add: setitem_def)

lemma assign_all_fresh:
  "assign_all (h @ [df]) (length h) as = (fst (attach as df), h @ [snd (attach as df)])"
  by (induction as arbitrary: df) (auto simp: setitem_fresh split: sum.splits)

lemma bars_attach [simp]: "bars (snd (attach as df)) = bars df"
  by (induction as arbitrary: df) (auto split: sum.splits)

lemma bars_augment [simp]: "bars (augment L df) = bars df"
  by (simp add: augment_def)

lemma attach_keeps:
  "map_of (extras df) k \<noteq> None \<Longrightarrow> map_of (extras (snd (attach as df))) k \<noteq> None"
  by (induction as arbitrary: df) (auto simp: update_conv' split: sum.splits)

lemma attach_has:
  "fst (attach as df) = None \<Longrightarrow> k \<in> fst ` set as \<Longrightarrow>
     map_of (extras (snd (attach as df))) k \<noteq> None"
proof (induction as arbitrary: df)
  case Nil
  then show ?case by simp
next
  case (Cons a as)
  obtain k' f where a: "a = (k', f)" by (cases a)
  from Cons.prems(1) obtain c where c: "f df = Inr c"
    by (cases "f df") (simp_all add: a)
  let ?df = "df\<lparr>extras := AList.update k' c (extras df)\<rparr>"
  from Cons.prems(1) have ok: "fst (attach as ?df) = None"
    by (simp add: a c)
  show ?case
  proof (cases "k = k'")
    case True
    have "map_of (extras ?df) k \<noteq> None"
      by (simp add: True update_conv')
    then show ?thesis
      by (simp add: a c attach_keeps)
  next
    case False
    with Cons.prems(2) a have "k \<in> fst ` set as" by auto
    with ok show ?thesis by (simp add: a c Cons.IH)
  qed
qed

lemma indicator_keys:
  "fst ` set (indicator_columns L) =
     {''SMA_20'', ''SMA_50'', ''SMA_200'', ''EMA_12'', ''EMA_26'', ''MACD'', ''MACD_Signal'',
      ''MACD_Diff'', ''RSI'', ''BB_Upper'', ''BB_Middle'', ''BB_Lower'', ''Stoch_K'', ''Stoch_D'',
      ''ATR'', ''OBV'', ''Daily_Return'', ''Price_Change''}"
  by (simp add: indicator_columns_def)

lemma attach_raises:
  "fst (attach (indicator_columns L) df)
     = (if length (bars df) < 14 then Some IndexError else None)"
  by (simp add: indicator_columns_def AverageTrueRange_def col_Close_def)

lemma ready_augment: "14 \<le> length (bars df) \<Longrightarrow> ready (augment L df)"
  by (simp add: ready_def augment_def attach_has attach_raises indicator_keys)

lemma add_technical_indicators_short:
  "length (bars (frame_of st)) < 14 \<Longrightarrow>
     add_technical_indicators L st = (Inl IndexError, st)"
  by (simp add: add_technical_indicators_def df_copy_def assign_all_fresh attach_raises
      frame_of_def)

lemma add_technical_indicators_long:
  "14 \<le> length (bars (frame_of st)) \<Longrightarrow>
     add_technical_indicators L st =
       (Inr (length (fst st)),
        (fst st @ [augment L (frame_of st)], (snd st)\<lparr>data := length (fst st)\<rparr>))"
  by (simp add: add_technical_indicators_def df_copy_def assign_all_fresh attach_raises
      frame_of_def augment_def)

lemma augmented_sma:
  assumes "14 \<le> length (bars df)"
  shows "map_of (extras (augment L df)) ''SMA_20'' = Some (sma_indicator L 20 (col_Close df))"
    "map_of (extras (augment L df)) ''SMA_50'' = Some (sma_indicator L 50 (col_Close df))"
    "map_of (extras (augment L df)) ''SMA_200'' = Some (sma_indicator L 200 (col_Close df))"
  using assms
  by (simp_all add: augment_def indicator_columns_def AverageTrueRange_def col_Close_def
      update_conv')

subsection \<open>What a returned dictionary looks like\<close>

lemma trend_info_Inr:
  assumes "trend_info df = Inr tr"
  obtains latest close sma_20 sma_50 sma_200 where
    "iloc df (- 1) = Inr latest"
    "map_of latest ''Close'' = Some close" "map_of latest ''SMA_20'' = Some sma_20"
    "map_of latest ''SMA_50'' = Some sma_50" "map_of latest ''SMA_200'' = Some sma_200"
    "tr = [(''current_price'', Num close), (''sma_20'', Num sma_20),
           (''sma_50'', Num sma_50), (''sma_200'', Num sma_200),
           (''short_term_trend'', Str (short_term_trend close sma_20 sma_50)),
           (''long_term_trend'', Str (long_term_trend sma_50 sma_200))]"
proof -
  from assms obtain latest close sma_20 sma_50 sma_200 where
    "iloc df (- 1) = Inr latest"
    "subscript latest ''Close'' = Inr close" "subscript latest ''SMA_20'' = Inr sma_20"
    "subscript latest ''SMA_50'' = Inr sma_50" "subscript latest ''SMA_200'' = Inr sma_200"
    "tr = [(''current_price'', Num close), (''sma_20'', Num sma_20),
           (''sma_50'', Num sma_50), (''sma_200'', Num sma_200),
           (''short_term_trend'', Str (short_term_trend close sma_20 sma_50)),
           (''long_term_trend'', Str (long_term_trend sma_50 sma_200))]"
    unfolding trend_info_def bindE_Inr_iff Let_def by fastforce
  then show thesis
    using that by (simp add: subscript_Inr_iff)
qed

lemma momentum_info_Inr:
  assumes "momentum_info df = Inr mo"
  obtains latest rsi_v macd_v macd_signal_v stoch_k stoch_d where
    "iloc df (- 1) = Inr latest"
    "map_of latest ''RSI'' = Some rsi_v" "map_of latest ''MACD'' = Some macd_v"
    "map_of latest ''MACD_Signal'' = Some macd_signal_v"
    "map_of latest ''Stoch_K'' = Some stoch_k" "map_of latest ''Stoch_D'' = Some stoch_d"
    "mo = [(''rsi'', Num rsi_v), (''macd'', Num macd_v),
           (''macd_signal'', Str (macd_label macd_v macd_signal_v)),
           (''stoch_k'', Num stoch_k), (''stoch_d'', Num stoch_d),
           (''rsi_signal'', Str (rsi_signal rsi_v)),
           (''stoch_signal'', Str (stoch_label stoch_k))]"
proof -
  from assms obtain latest rsi_v macd_v macd_signal_v stoch_k stoch_d where
    "iloc df (- 1) = Inr latest"
    "subscript latest ''RSI'' = Inr rsi_v" "subscript latest ''MACD'' = Inr macd_v"
    "subscript latest ''MACD_Signal'' = Inr macd_signal_v"
    "subscript latest ''Stoch_K'' = Inr stoch_k" "subscript latest ''Stoch_D'' = Inr stoch_d"
    "mo = [(''rsi'', Num rsi_v), (''macd'', Num macd_v),
           (''macd_signal'', Str (macd_label macd_v macd_signal_v)),
           (''stoch_k'', Num stoch_k), (''stoch_d'', Num stoch_d),
           (''rsi_signal'', Str (rsi_signal rsi_v)),
           (''stoch_signal'', Str (stoch_label stoch_k))]"
    unfolding momentum_info_def bindE_Inr_iff Let_def by fastforce
  then show thesis
    using that by (simp add: subscript_Inr_iff)
qed

lemma volatility_info_Inr:
  assumes "volatility_info L df = Inr vo"
  obtains latest close bb_upper bb_middle bb_lower atr where
    "iloc df (- 1) = Inr latest"
    "map_of latest ''Close'' = Some close" "map_of latest ''BB_Upper'' = Some bb_upper"
    "map_of latest ''BB_Middle'' = Some bb_middle" "map_of latest ''BB_Lower'' = Some bb_lower"
    "map_of latest ''ATR'' = Some atr"
    "vo = [(''current_price'', Num close), (''bb_upper'', Num bb_upper),
           (''bb_middle'', Num bb_middle), (''bb_lower'', Num bb_lower),
           (''atr'', Num atr), (''historical_volatility'', Num (historical_volatility L df)),
           (''bb_position'', Str (bb_position close bb_upper bb_lower))]"
proof -
  from assms obtain latest close bb_upper bb_middle bb_lower atr where
    "iloc df (- 1) = Inr latest"
    "subscript latest ''Close'' = Inr close" "subscript latest ''BB_Upper'' = Inr bb_upper"
    "subscript latest ''BB_Middle'' = Inr bb_middle"
    "subscript latest ''BB_Lower'' = Inr bb_lower" "subscript latest ''ATR'' = Inr atr"
    "vo = [(''current_price'', Num close), (''bb_upper'', Num bb_upper),
           (''bb_middle'', Num bb_middle), (''bb_lower'', Num bb_lower),
           (''atr'', Num atr), (''historical_volatility'', Num (historical_volatility L df)),
           (''bb_position'', Str (bb_position close bb_upper bb_lower))]"
    unfolding volatility_info_def bindE_Inr_iff Let_def by fastforce
  then show thesis
    using that by (simp add: subscript_Inr_iff)
qed

subsection \<open>Reading a frame\<close>

lemma iloc_last:
  "iloc df (- 1) =
     (if bars df = [] then Inl IndexError else Inr (row_at df (length (bars df) - 1)))"
  by (auto simp: iloc_def Let_def nat_diff_distrib' intro!: arg_cong [where f = "row_at df"])

lemma iloc_prev:
  "iloc df (- 2) =
     (if length (bars df) < 2 then Inl IndexError else Inr (row_at df (length (bars df) - 2)))"
  by (auto simp: iloc_def Let_def nat_diff_distrib' intro!: arg_cong [where f = "row_at df"])

lemma map_of_row_at_extra:
  assumes "k \<notin> {''Open'', ''High'', ''Low'', ''Close'', ''Volume''}"
  shows "map_of (row_at df i) k = map_option (\<lambda>c. cell c i) (map_of (extras df) k)"
  using assms by (simp add: row_at_def map_of_map)

lemma map_of_row_at_Close: "map_of (row_at df i) ''Close'' = Some (Close (bars df ! i))"
  by (simp add: row_at_def)

lemma subscript_row_at_extra:
  assumes "map_of (extras df) k = Some c" "k \<notin> {''Open'', ''High'', ''Low'', ''Close'', ''Volume''}"
  shows "subscript (row_at df i) k = Inr (cell c i)"
  by (simp add: subscript_def map_of_row_at_extra [OF assms(2)] assms(1))

lemma subscript_row_at_Close: "subscript (row_at df i) ''Close'' = Inr (Close (bars df ! i))"
  by (simp add: subscript_def map_of_row_at_Close)

lemma trend_info_short: "length (bars df) < 2 \<Longrightarrow> trend_info df = Inl IndexError"
  by (simp add: trend_info_def iloc_last iloc_prev)

lemma trend_info_returns:
  assumes "ready df" "2 \<le> length (bars df)"
  shows "\<exists>tr. trend_info df = Inr tr"
proof -
  from assms(1) obtain c1 c2 c3 where
    "map_of (extras df) ''SMA_20'' = Some c1" "map_of (extras df) ''SMA_50'' = Some c2"
    "map_of (extras df) ''SMA_200'' = Some c3"
    by (auto simp: ready_def)
  with assms(2) show ?thesis
    by (auto simp: trend_info_def iloc_last iloc_prev subscript_row_at_extra
        subscript_row_at_Close Let_def)
qed

lemma momentum_info_returns:
  assumes "ready df" "bars df \<noteq> []"
  shows "\<exists>mo. momentum_info df = Inr mo"
proof -
  from assms(1) obtain c1 c2 c3 c4 c5 where
    "map_of (extras df) ''RSI'' = Some c1" "map_of (extras df) ''MACD'' = Some c2"
    "map_of (extras df) ''MACD_Signal'' = Some c3" "map_of (extras df) ''Stoch_K'' = Some c4"
    "map_of (extras df) ''Stoch_D'' = Some c5"
    by (auto simp: ready_def)
  with assms(2) show ?thesis
    by (auto simp: momentum_info_def iloc_last subscript_row_at_extra Let_def)
qed

lemma volatility_info_returns:
  assumes "ready df" "bars df \<noteq> []"
  shows "\<exists>vo. volatility_info L df = Inr vo"
proof -
  from assms(1) obtain c1 c2 c3 c4 where
    "map_of (extras df) ''BB_Upper'' = Some c1" "map_of (extras df) ''BB_Middle'' = Some c2"
    "map_of (extras df) ''BB_Lower'' = Some c3" "map_of (extras df) ''ATR'' = Some c4"
    by (auto simp: ready_def)
  with assms(2) show ?thesis
    by (auto simp: volatility_info_def iloc_last subscript_row_at_extra
        subscript_row_at_Close Let_def)
qed

subsection \<open>When the analyses return\<close>

lemma decide_Inr:
  assumes "decide tr mo vo = Inr sig"
  obtains t r m b where
    "map_of tr ''short_term_trend'' = Some t"
    "map_of mo ''rsi_signal'' = Some r"
    "map_of mo ''macd_signal'' = Some m"
    "map_of vo ''bb_position'' = Some b"
    "sig = [(''trend'', t), (''momentum'', r), (''macd'', m), (''volatility'', b),
            (''recommendation'', Str (recommendation (fst (tally t r m)) (snd (tally t r m)))),
            (''confidence'', Str (confidence (fst (tally t r m)) (snd (tally t r m))))]"
  using assms
  by (auto simp: decide_def bindE_Inr_iff subscript_Inr_iff Let_def split_beta)

lemma short_term_trend_cases: "short_term_trend a b c \<in> {Uptrend, Downtrend, Sideways}"
  by (simp add: short_term_trend_def)

lemma rsi_signal_cases: "rsi_signal x \<in> {Overbought, Oversold, Neutral}"
  by (simp add: rsi_signal_def)

lemma macd_label_cases: "macd_label x y \<in> {Bullish, Bearish}"
  by (simp add: macd_label_def)

lemma decide_returns:
  assumes "trend_info df1 = Inr tr" "momentum_info df2 = Inr mo" "volatility_info L df3 = Inr vo"
  shows "\<exists>sig. decide tr mo vo = Inr sig"
proof -
  from assms(1) have 1: "\<exists>t. subscript tr ''short_term_trend'' = Inr t"
    by (elim trend_info_Inr) (simp add: subscript_def)
  from assms(2) have 2: "\<exists>r. subscript mo ''rsi_signal'' = Inr r"
    "\<exists>m. subscript mo ''macd_signal'' = Inr m"
    by (elim momentum_info_Inr, simp add: subscript_def)+
  from assms(3) have 3: "\<exists>b. subscript vo ''bb_position'' = Inr b"
    by (elim volatility_info_Inr) (simp add: subscript_def)
  from 1 2 3 show ?thesis
    by (auto simp: decide_def Let_def split_beta)
qed

lemma signals_of_returns:
  assumes "ready df" "2 \<le> length (bars df)"
  shows "\<exists>sig. signals_of L df = Inr sig"
proof -
  from assms obtain tr where tr: "trend_info df = Inr tr"
    using trend_info_returns by blast
  from assms have ne: "bars df \<noteq> []" by auto
  from assms(1) ne obtain mo where mo: "momentum_info df = Inr mo"
    using momentum_info_returns by blast
  from assms(1) ne obtain vo where vo: "volatility_info L df = Inr vo"
    using volatility_info_returns by blast
  from decide_returns [OF tr mo vo] show ?thesis
    by (simp add: signals_of_def tr mo vo)
qed

lemma summary_of_Inr:
  assumes "summary_of L df = Inr d"
  obtains tr mo vo sig latest where
    "trend_info df = Inr tr" "momentum_info df = Inr mo" "volatility_info L df = Inr vo"
    "signals_of L df = Inr sig" "iloc df (- 1) = Inr latest"
    "d = [(''trend'', Dict tr), (''momentum'', Dict mo), (''volatility'', Dict vo),
          (''signals'', Dict sig), (''latest_data'', Dict (to_dict latest))]"
  using assms unfolding summary_of_def bindE_Inr_iff by fastforce

lemma summary_of_returns:
  assumes "ready df" "2 \<le> length (bars df)"
  shows "\<exists>d. summary_of L df = Inr d"
proof -
  from assms obtain tr where tr: "trend_info df = Inr tr"
    using trend_info_returns by blast
  from assms have ne: "bars df \<noteq> []" by auto
  from assms(1) ne obtain mo where mo: "momentum_info df = Inr mo"
    using momentum_info_returns by blast
  from assms(1) ne obtain vo where vo: "volatility_info L df = Inr vo"
    using volatility_info_returns by blast
  from assms obtain sig where sig: "signals_of L df = Inr sig"
    using signals_of_returns by blast
  show ?thesis
    by (simp add: summary_of_def tr mo vo sig iloc_last ne)
qed

lemma summary_of_short: "length (bars df) < 2 \<Longrightarrow> summary_of L df = Inl IndexError"
  by (simp add: summary_of_def trend_info_short)

lemma has_column_ready:
  "ready df \<Longrightarrow> has_column df ''SMA_20''"
  "ready df \<Longrightarrow> has_column df ''RSI''"
  "ready df \<Longrightarrow> has_column df ''BB_Upper''"
  by (simp_all add: ready_def has_column_def)

subsection \<open>Analyses of a frame that has its indicator columns\<close>

lemma ensure_ready:
  "ready (frame_of st) \<Longrightarrow> ensure L ''SMA_20'' st = (Inr (), st)"
  "ready (frame_of st) \<Longrightarrow> ensure L ''RSI'' st = (Inr (), st)"
  "ready (frame_of st) \<Longrightarrow> ensure L ''BB_Upper'' st = (Inr (), st)"
  by (simp_all add: ensure_def has_column_ready)

lemma analyze_trend_ready:
  "ready (frame_of st) \<Longrightarrow> analyze_trend L st = (trend_info (frame_of st), st)"
  by (simp add: analyze_trend_def ensure_ready)

lemma analyze_momentum_ready:
  "ready (frame_of st) \<Longrightarrow> analyze_momentum L st = (momentum_info (frame_of st), st)"
  by (simp add: analyze_momentum_def ensure_ready)

lemma analyze_volatility_ready:
  "ready (frame_of st) \<Longrightarrow> analyze_volatility L st = (volatility_info L (frame_of st), st)"
  by (simp add: analyze_volatility_def ensure_ready)

lemma thenE_pure:
  "thenE (r, st) f = (case r of Inl e \<Rightarrow> (Inl e, st) | Inr x \<Rightarrow> f x st)"
  by (simp add: thenE_def split: sum.splits)

lemma generate_signals_ready:
  assumes "ready (frame_of st)"
  shows "generate_signals L st =
    (case signals_of L (frame_of st) of
       Inl e \<Rightarrow> (Inl e, st)
     | Inr sig \<Rightarrow> (Inr sig, (fst st, (snd st)\<lparr>signals := sig\<rparr>)))"
  by (simp add: generate_signals_def signals_of_def analyze_trend_ready [OF assms]
      analyze_momentum_ready [OF assms] analyze_volatility_ready [OF assms] thenE_pure
      split: sum.splits)

subsection \<open>The analyzer on a fresh frame\<close>

lemma ensure_cases:
  "ensure L k st = (Inr (), st)
   \<or> ensure L k st = (Inl IndexError, st) \<and> length (bars (frame_of st)) < 14
   \<or> ensure L k st = (Inr (), snd (add_technical_indicators L st))
      \<and> 14 \<le> length (bars (frame_of st))
      \<and> frame_of (snd (add_technical_indicators L st)) = augment L (frame_of st)"
proof (cases "has_column (frame_of st) k")
  case True
  then show ?thesis by (simp add: ensure_def)
next
  case False
  show ?thesis
  proof (cases "length (bars (frame_of st)) < 14")
    case True
    with False show ?thesis
      by (simp add: ensure_def add_technical_indicators_short)
  next
    case long: False
    with False show ?thesis
      by (simp add: ensure_def add_technical_indicators_long frame_of_def)
  qed
qed

lemma bars_ensure [simp]: "bars (frame_of (snd (ensure L k st))) = bars (frame_of st)"
  using ensure_cases [of L k st] by auto

lemma get_summary_short:
  "length (bars (frame_of st)) < 14 \<Longrightarrow> get_summary L st = (Inl IndexError, st)"
  by (simp add: get_summary_def add_technical_indicators_short)

lemma get_summary_long:
  assumes "14 \<le> length (bars (frame_of st))"
  shows "fst (get_summary L st) = summary_of L (augment L (frame_of st))"
proof -
  define st0 where
    "st0 = (fst st @ [augment L (frame_of st)], (snd st)\<lparr>data := length (fst st)\<rparr>)"
  have f: "frame_of st0 = augment L (frame_of st)"
    by (simp add: st0_def frame_of_def)
  have r: "ready (frame_of st0)"
    using assms by (simp add: f ready_augment)
  have "fst (get_summary L st) = summary_of L (frame_of st0)"
    unfolding get_summary_def add_technical_indicators_long [OF assms] st0_def [symmetric]
      summary_of_def
    by (simp add: analyze_trend_ready [OF r] analyze_momentum_ready [OF r]
        analyze_volatility_ready [OF r] generate_signals_ready [OF r] thenE_pure
        split: sum.splits)
  then show ?thesis by (simp add: f)
qed

lemma get_summary_fst:
  "fst (get_summary L st) =
     (if length (bars (frame_of st)) < 14 then Inl IndexError
      else summary_of L (augment L (frame_of st)))"
  by (simp add: get_summary_short get_summary_long)

lemma get_summary_returns:
  "14 \<le> length (bars (frame_of st)) \<Longrightarrow> \<exists>d. fst (get_summary L st) = Inr d"
  by (simp add: get_summary_long summary_of_returns ready_augment)

lemma analyze_trend_short:
  assumes "length (bars (frame_of st)) < 2"
  shows "fst (analyze_trend L st) = Inl IndexError"
    "length (bars (frame_of (snd (analyze_trend L st)))) < 2"
  using assms ensure_cases [of L "''SMA_20''" st]
  by (auto simp: analyze_trend_def trend_info_short)

lemma generate_signals_short:
  assumes "length (bars (frame_of st)) < 2"
  shows "fst (generate_signals L st) = Inl IndexError"
proof -
  obtain st1 where "analyze_trend L st = (Inl IndexError, st1)"
    using analyze_trend_short(1) [OF assms, of L] by (cases "analyze_trend L st") simp
  then show ?thesis
    by (simp add: generate_signals_def)
qed

subsection \<open>What \<open>generate_signals\<close> is made of\<close>

lemma analyze_trend_Inr:
  "analyze_trend L st = (Inr tr, st1) \<Longrightarrow> trend_info (frame_of st1) = Inr tr"
  unfolding analyze_trend_def by (erule thenE_Inr) simp

lemma analyze_momentum_Inr:
  "analyze_momentum L st = (Inr mo, st1) \<Longrightarrow> momentum_info (frame_of st1) = Inr mo"
  unfolding analyze_momentum_def by (erule thenE_Inr) simp

lemma analyze_volatility_Inr:
  "analyze_volatility L st = (Inr vo, st1) \<Longrightarrow> volatility_info L (frame_of st1) = Inr vo"
  unfolding analyze_volatility_def by (erule thenE_Inr) simp

lemma generate_signals_Inr:
  assumes "fst (generate_signals L st) = Inr sig"
  obtains tr mo vo st1 st2 st3 where
    "analyze_trend L st = (Inr tr, st1)" "analyze_momentum L st1 = (Inr mo, st2)"
    "analyze_volatility L st2 = (Inr vo, st3)" "decide tr mo vo = Inr sig"
proof -
  obtain st' where g: "generate_signals L st = (Inr sig, st')"
    using assms by (cases "generate_signals L st") simp
  from g obtain tr st1 where 1: "analyze_trend L st = (Inr tr, st1)"
    and g1: "thenE (analyze_momentum L st1) (\<lambda>momentum st2.
       thenE (analyze_volatility L st2) (\<lambda>volatility st3.
         case decide tr momentum volatility of
           Inl e \<Rightarrow> (Inl e, st3)
         | Inr sig \<Rightarrow> (Inr sig, (fst st3, (snd st3)\<lparr>signals := sig\<rparr>)))) = (Inr sig, st')"
    unfolding generate_signals_def by (rule thenE_Inr)
  from g1 obtain mo st2 where 2: "analyze_momentum L st1 = (Inr mo, st2)"
    and g2: "thenE (analyze_volatility L st2) (\<lambda>volatility st3.
         case decide tr mo volatility of
           Inl e \<Rightarrow> (Inl e, st3)
         | Inr sig \<Rightarrow> (Inr sig, (fst st3, (snd st3)\<lparr>signals := sig\<rparr>))) = (Inr sig, st')"
    by (rule thenE_Inr)
  from g2 obtain vo st3 where 3: "analyze_volatility L st2 = (Inr vo, st3)"
    and g3: "(case decide tr mo vo of
           Inl e \<Rightarrow> (Inl e, st3)
         | Inr sig \<Rightarrow> (Inr sig, (fst st3, (snd st3)\<lparr>signals := sig\<rparr>))) = (Inr sig, st')"
    by (rule thenE_Inr)
  from g3 have 4: "decide tr mo vo = Inr sig"
    by (cases "decide tr mo vo") simp_all
  from 1 2 3 4 show thesis by (rule that)
qed

lemma tally_votes:
  assumes "t \<in> {Uptrend, Downtrend, Sideways}" "r \<in> {Overbought, Oversold, Neutral}"
    "m \<in> {Bullish, Bearish}"
  shows "tally (Str t) (Str r) (Str m) =
    (of_bool (t = Uptrend) + of_bool (r = Oversold) + of_bool (m = Bullish),
     of_bool (t = Downtrend) + of_bool (r = Overbought) + of_bool (m = Bearish))"
  using assms label_distinct
  by (auto simp: tally_def vote_trend_def vote_rsi_def vote_macd_def)

lemma signals_shape:
  assumes "fst (generate_signals L st) = Inr sig"
  obtains tr mo st1 st2 t r m b where
    "analyze_trend L st = (Inr tr, st1)" "analyze_momentum L st1 = (Inr mo, st2)"
    "map_of tr ''short_term_trend'' = Some (Str t)" "t \<in> {Uptrend, Downtrend, Sideways}"
    "map_of mo ''rsi_signal'' = Some (Str r)" "r \<in> {Overbought, Oversold, Neutral}"
    "map_of mo ''macd_signal'' = Some (Str m)" "m \<in> {Bullish, Bearish}"
    "tally (Str t) (Str r) (Str m) = (buy_votes tr mo, sell_votes tr mo)"
    "sig = [(''trend'', Str t), (''momentum'', Str r), (''macd'', Str m), (''volatility'', b),
            (''recommendation'', Str (recommendation (buy_votes tr mo) (sell_votes tr mo))),
            (''confidence'', Str (confidence (buy_votes tr mo) (sell_votes tr mo)))]"
proof -
  from assms obtain tr mo vo st1 st2 st3 where
    a: "analyze_trend L st = (Inr tr, st1)" "analyze_momentum L st1 = (Inr mo, st2)"
    and d: "decide tr mo vo = Inr sig"
    by (rule generate_signals_Inr)
  from a(1) have "trend_info (frame_of st1) = Inr tr"
    by (rule analyze_trend_Inr)
  then have "\<exists>t. map_of tr ''short_term_trend'' = Some (Str t)
      \<and> t \<in> {Uptrend, Downtrend, Sideways}"
    by (elim trend_info_Inr) (use short_term_trend_cases in auto)
  then obtain t where t: "map_of tr ''short_term_trend'' = Some (Str t)"
    "t \<in> {Uptrend, Downtrend, Sideways}" by blast
  from a(2) have "momentum_info (frame_of st2) = Inr mo"
    by (rule analyze_momentum_Inr)
  then have "\<exists>r m. map_of mo ''rsi_signal'' = Some (Str r)
      \<and> r \<in> {Overbought, Oversold, Neutral}
      \<and> map_of mo ''macd_signal'' = Some (Str m) \<and> m \<in> {Bullish, Bearish}"
    by (elim momentum_info_Inr) (use rsi_signal_cases macd_label_cases in auto)
  then obtain r m where r: "map_of mo ''rsi_signal'' = Some (Str r)"
    "r \<in> {Overbought, Oversold, Neutral}"
    and m: "map_of mo ''macd_signal'' = Some (Str m)" "m \<in> {Bullish, Bearish}" by blast
  have v: "tally (Str t) (Str r) (Str m) = (buy_votes tr mo, sell_votes tr mo)"
    by (simp add: tally_votes [OF t(2) r(2) m(2)] buy_votes_def sell_votes_def t(1) r(1) m(1))
  from d obtain b where
    "sig = [(''trend'', Str t), (''momentum'', Str r), (''macd'', Str m), (''volatility'', b),
            (''recommendation'',
               Str (recommendation (fst (tally (Str t) (Str r) (Str m)))
                      (snd (tally (Str t) (Str r) (Str m))))),
            (''confidence'',
               Str (confidence (fst (tally (Str t) (Str r) (Str m)))
                      (snd (tally (Str t) (Str r) (Str m)))))]"
    by (elim decide_Inr) (simp add: t(1) r(1) m(1))
  then have s: "sig = [(''trend'', Str t), (''momentum'', Str r), (''macd'', Str m),
            (''volatility'', b),
            (''recommendation'', Str (recommendation (buy_votes tr mo) (sell_votes tr mo))),
            (''confidence'', Str (confidence (buy_votes tr mo) (sell_votes tr mo)))]"
    by (simp add: v)
  from a t(1) t(2) r(1) r(2) m(1) m(2) v s show thesis by (rule that)
qed

lemma votes_range: "buy_votes tr mo + sell_votes tr mo \<le> 3"
  using label_distinct by (auto simp: buy_votes_def sell_votes_def)

lemma votes_cast:
  assumes "map_of mo ''macd_signal'' = Some (Str m)" "m \<in> {Bullish, Bearish}"
  shows "1 \<le> buy_votes tr mo + sell_votes tr mo"
  using assms by (auto simp: buy_votes_def sell_votes_def)

subsection \<open>The store only grows\<close>

lemma prefix_add: "prefix (fst st) (fst (snd (add_technical_indicators L st)))"
  by (cases "length (bars (frame_of st)) < 14")
     (simp_all add: add_technical_indicators_short add_technical_indicators_long)

lemma prefix_ensure: "prefix (fst st) (fst (snd (ensure L k st)))"
  using ensure_cases [of L k st] prefix_add [of st L] by auto

lemma prefix_thenE:
  assumes "prefix h (fst (snd r))" "\<And>x st'. prefix (fst st') (fst (snd (f x st')))"
  shows "prefix h (fst (snd (thenE r f)))"
proof -
  obtain v s where r: "r = (v, s)" by (cases r)
  show ?thesis
  proof (cases v)
    case (Inl e)
    with r assms(1) show ?thesis by simp
  next
    case (Inr x)
    have "prefix (fst s) (fst (snd (f x s)))" by (rule assms(2))
    with assms(1) r Inr show ?thesis
      by (auto intro: prefix_order.trans)
  qed
qed

lemma prefix_analyze:
  "prefix (fst st) (fst (snd (analyze_trend L st)))"
  "prefix (fst st) (fst (snd (analyze_momentum L st)))"
  "prefix (fst st) (fst (snd (analyze_volatility L st)))"
  unfolding analyze_trend_def analyze_momentum_def analyze_volatility_def
  by (rule prefix_thenE, rule prefix_ensure, simp)+

lemma prefix_generate_signals: "prefix (fst st) (fst (snd (generate_signals L st)))"
  unfolding generate_signals_def
  by (intro prefix_thenE prefix_analyze) (simp split: sum.splits)

lemma prefix_get_summary: "prefix (fst st) (fst (snd (get_summary L st)))"
  unfolding get_summary_def
  by (intro prefix_thenE prefix_analyze prefix_add prefix_generate_signals)
     (simp split: sum.splits)

lemma prefix_call_op: "prefix (fst st) (fst (call_op L c st))"
  by (cases c)
     (simp_all add: prefix_add prefix_analyze prefix_generate_signals prefix_get_summary)

lemma prefix_run: "prefix (fst st) (fst (run L cs st))"
  unfolding run_def
proof (induction cs arbitrary: st)
  case Nil
  show ?case by simp
next
  case (Cons c cs)
  have "prefix (fst st) (fst (call_op L c st))"
    by (rule prefix_call_op)
  also have "prefix (fst (call_op L c st)) (fst (fold (call_op L) cs (call_op L c st)))"
    by (rule Cons.IH)
  finally show ?case by simp
qed

lemma prefix_nth: "prefix xs ys \<Longrightarrow> i < length xs \<Longrightarrow> ys ! i = xs ! i"
  by (auto simp: prefix_def nth_append)

subsection \<open>The concrete inputs, evaluated\<close>

lemmas eval_defs =
  trend_info_def momentum_info_def volatility_info_def
  iloc_last iloc_prev subscript_def row_at_def cell_def flat_bar_def charted_def
  short_term_trend_def long_term_trend_def rsi_signal_def macd_label_def stoch_label_def
  bb_position_def flt_def to_dict_def

lemma charted_ready: "ready (charted m)"
  by (simp add: ready_def charted_def)



lemma charted_signals:
  "signals_of L (charted 2) =
     Inr [(''trend'', Str Uptrend), (''momentum'', Str Neutral), (''macd'', Str Bullish),
          (''volatility'', Str WithinBands), (''recommendation'', Str BUY),
          (''confidence'', Str ''2/3'')]"
  "signals_of L (charted 1) =
     Inr [(''trend'', Str Uptrend), (''momentum'', Str Neutral), (''macd'', Str Bearish),
          (''volatility'', Str WithinBands), (''recommendation'', Str HOLD),
          (''confidence'', Str ''1/3'')]"
  by (simp_all add: signals_of_def eval_defs historical_volatility_def decide_def tally_def
      vote_trend_def vote_rsi_def vote_macd_def label_defs recommendation_def confidence_def
      str_nat.simps)

lemma trend_info_columns:
  assumes "2 \<le> length (bars df)"
    "map_of (extras df) ''SMA_20'' = Some c20" "map_of (extras df) ''SMA_50'' = Some c50"
    "map_of (extras df) ''SMA_200'' = Some c200"
  shows "trend_info df =
     Inr [(''current_price'', Num (Close (bars df ! (length (bars df) - 1)))),
          (''sma_20'', Num (cell c20 (length (bars df) - 1))),
          (''sma_50'', Num (cell c50 (length (bars df) - 1))),
          (''sma_200'', Num (cell c200 (length (bars df) - 1))),
          (''short_term_trend'',
           Str (short_term_trend (Close (bars df ! (length (bars df) - 1)))
                  (cell c20 (length (bars df) - 1)) (cell c50 (length (bars df) - 1)))),
          (''long_term_trend'',
           Str (long_term_trend (cell c50 (length (bars df) - 1))
                  (cell c200 (length (bars df) - 1))))]"
  using assms
  by (auto simp: trend_info_def iloc_last iloc_prev subscript_row_at_extra
      subscript_row_at_Close Let_def)

lemma sma_warmup: "length xs < w \<Longrightarrow> sma w xs = replicate (length xs) None"
proof -
  assume a: "length xs < w"
  have "sma w xs = map (\<lambda>t. None) [0..<length xs]"
    unfolding sma_def using a by (intro map_cong) auto
  then show ?thesis
    by (simp add: map_replicate_const)
qed

lemma spec_sma_warmup:
  "length c < w \<Longrightarrow> i < length c \<Longrightarrow> cell (sma_indicator spec_lib w c) i = NaN"
  by (simp add: spec_lib_def sma_warmup cell_def float_of_def)

lemma fourteen_trend:
  "trend_info (augment spec_lib fourteen_bars) =
     Inr [(''current_price'', Num (Finite 100)), (''sma_20'', Num NaN), (''sma_50'', Num NaN),
          (''sma_200'', Num NaN), (''short_term_trend'', Str Sideways),
          (''long_term_trend'', Str LongNeutral)]"
proof -
  have n: "14 \<le> length (bars fourteen_bars)" "length (bars fourteen_bars) = 14"
    "length (col_Close fourteen_bars) = 14"
    by (simp_all add: fourteen_bars_def col_Close_def)
  have "2 \<le> length (bars (augment spec_lib fourteen_bars))"
    by (simp add: n)
  note t = trend_info_columns [OF this augmented_sma [OF n(1)]]
  show ?thesis
    unfolding t
    by (simp add: n spec_sma_warmup short_term_trend_def long_term_trend_def flt_def)
       (simp add: fourteen_bars_def flat_bar_def)
qed

lemma fourteen_volatility:
  "historical_volatility spec_lib fourteen_bars = Finite 0"
  by (simp add: historical_volatility_def spec_lib_def fourteen_bars_def col_Close_def
      flat_bar_def fractional_returns_def known_def dropna_def float_of_def sample_std_def
      mean_opt_def lift2_def)

lemma analyze_trend_fresh:
  assumes "\<not> has_column (frame_of st) ''SMA_20''" "14 \<le> length (bars (frame_of st))"
  shows "fst (analyze_trend L st) = trend_info (augment L (frame_of st))"
  using assms
  by (simp add: analyze_trend_def ensure_def add_technical_indicators_long frame_of_def)

lemma analyze_volatility_fresh:
  assumes "\<not> has_column (frame_of st) ''BB_Upper''" "14 \<le> length (bars (frame_of st))"
  shows "analyze_volatility L st =
    (volatility_info L (augment L (frame_of st)),
     (fst st @ [augment L (frame_of st)], (snd st)\<lparr>data := length (fst st)\<rparr>))"
  using assms
  by (simp add: analyze_volatility_def ensure_def add_technical_indicators_long frame_of_def)

lemma analyze_charted:
  "analyze_trend L (init [charted m] 0) = (trend_info (charted m), init [charted m] 0)"
  "analyze_momentum L (init [charted m] 0) = (momentum_info (charted m), init [charted m] 0)"
  "fst (generate_signals L (init [charted m] 0)) = signals_of L (charted m)"
  by (simp_all add: analyze_trend_ready analyze_momentum_ready generate_signals_ready
      charted_ready split: sum.splits)

section \<open>The recommendation\<close>



text \<open>
  Claim C5.  Whenever \<open>generate_signals\<close> returns, the recommendation is one of BUY, SELL
  and HOLD, and the confidence is one of \<open>0/3\<close>, \<open>1/3\<close>, \<open>2/3\<close> and \<open>3/3\<close>.
\<close>

theorem generate_signals_range:
  assumes "fst (generate_signals L st) = Inr sig"
  shows "map_of sig ''recommendation'' \<in> {Some (Str BUY), Some (Str SELL), Some (Str HOLD)}
    \<and> map_of sig ''confidence''
        \<in> {Some (Str ''0/3''), Some (Str ''1/3''), Some (Str ''2/3''), Some (Str ''3/3'')}"
proof -
  from assms obtain tr mo m b t r where
    m: "map_of mo ''macd_signal'' = Some (Str m)" "m \<in> {Bullish, Bearish}"
    and s: "sig = [(''trend'', Str t), (''momentum'', Str r), (''macd'', Str m),
            (''volatility'', b),
            (''recommendation'', Str (recommendation (buy_votes tr mo) (sell_votes tr mo))),
            (''confidence'', Str (confidence (buy_votes tr mo) (sell_votes tr mo)))]"
    by (rule signals_shape)
  have b: "map_of sig ''recommendation''
      = Some (Str (recommendation (buy_votes tr mo) (sell_votes tr mo)))"
    "map_of sig ''confidence'' = Some (Str (confidence (buy_votes tr mo) (sell_votes tr mo)))"
    by (simp_all add: s)
  have "recommendation (buy_votes tr mo) (sell_votes tr mo) \<in> {BUY, SELL, HOLD}"
    by (simp add: recommendation_def)
  moreover have "max (buy_votes tr mo) (sell_votes tr mo) \<in> {1, 2, 3}"
    using votes_range [of tr mo] votes_cast [OF m, of tr] by (auto simp: max_def)
  then have "confidence (buy_votes tr mo) (sell_votes tr mo) \<in> {''1/3'', ''2/3'', ''3/3''}"
    by (auto simp: confidence_def str_nat_digits)
  ultimately show ?thesis
    unfolding b by blast
qed

theorem generate_signals_range_witness:
  "fst (generate_signals spec_lib (init [charted 2] 0))
     = Inr [(''trend'', Str Uptrend), (''momentum'', Str Neutral), (''macd'', Str Bullish),
          (''volatility'', Str WithinBands), (''recommendation'', Str BUY),
          (''confidence'', Str ''2/3'')]
   \<and> Some (Str BUY) \<in> {Some (Str BUY), Some (Str SELL), Some (Str HOLD)}
   \<and> Some (Str ''2/3'')
        \<in> {Some (Str ''0/3''), Some (Str ''1/3''), Some (Str ''2/3''), Some (Str ''3/3'')}"
proof -
  have h: "fst (generate_signals spec_lib (init [charted 2] 0))
     = Inr [(''trend'', Str Uptrend), (''momentum'', Str Neutral), (''macd'', Str Bullish),
          (''volatility'', Str WithinBands), (''recommendation'', Str BUY),
          (''confidence'', Str ''2/3'')]"
    by (simp add: analyze_charted charted_signals)
  show ?thesis
    using generate_signals_range [OF h] h by simp
qed



section \<open>The MACD rule\<close>



section \<open>Historical volatility\<close>

text \<open>
  Claim C8.  Whenever \<open>analyze_volatility\<close> returns, the historical volatility it reports is
  the standard deviation (\<open>Series.std\<close> of pandas, the sample deviation) of the day-over-day
  fractional returns of the close column of the series (\<open>pct_change\<close> with the undefined
  first entry dropped), times the square root of 252, times 100.
\<close>

theorem historical_volatility_formula:
  assumes "analyze_volatility L st = (Inr vo, st')"
  shows "map_of vo ''historical_volatility'' =
     Some (Num (fmul L
                  (fmul L (std L (dropna (pct_change L (map Close (bars (frame_of st))))))
                     (np_sqrt L (Finite 252)))
                  (Finite 100)))"
proof -
  from assms obtain u st1 where
    e: "ensure L ''BB_Upper'' st = (Inr u, st1)"
    and r: "(volatility_info L (frame_of st1), st1) = (Inr vo, st')"
    unfolding analyze_volatility_def by (rule thenE_Inr)
  from r have eq: "st1 = st'" and vi: "volatility_info L (frame_of st1) = Inr vo"
    by auto
  from e have "bars (frame_of st1) = bars (frame_of st)"
    using bars_ensure [of L "''BB_Upper''" st] by simp
  then have b: "bars (frame_of st') = bars (frame_of st)"
    by (simp add: eq)
  from vi have "volatility_info L (frame_of st') = Inr vo"
    by (simp add: eq)
  then have "map_of vo ''historical_volatility''
      = Some (Num (historical_volatility L (frame_of st')))"
    by (elim volatility_info_Inr) simp
  then show ?thesis
    by (simp add: historical_volatility_def col_Close_def b)
qed

theorem historical_volatility_formula_witness:
  "\<exists>vo st'. analyze_volatility spec_lib (init [fourteen_bars] 0) = (Inr vo, st')
     \<and> map_of vo ''historical_volatility'' = Some (Num (Finite 0))"
proof -
  have f: "\<not> has_column (frame_of (init [fourteen_bars] 0)) ''BB_Upper''"
    "14 \<le> length (bars (frame_of (init [fourteen_bars] 0)))"
    by (simp_all add: has_column_def fourteen_bars_def)
  have "\<exists>vo. volatility_info spec_lib (augment spec_lib fourteen_bars) = Inr vo"
    by (rule volatility_info_returns) (simp_all add: ready_augment fourteen_bars_def)
  then obtain vo st' where
    a: "analyze_volatility spec_lib (init [fourteen_bars] 0) = (Inr vo, st')"
    by (auto simp: analyze_volatility_fresh [OF f])
  have "historical_volatility spec_lib (frame_of (init [fourteen_bars] 0)) = Finite 0"
    by (simp add: fourteen_volatility)
  with historical_volatility_formula [OF a]
  have "map_of vo ''historical_volatility'' = Some (Num (Finite 0))"
    by (simp add: historical_volatility_def col_Close_def)
  with a show ?thesis by blast
qed

section \<open>Undefined indicators\<close>

text \<open>
  Claim C2, as stated: when an indicator is undefined at the latest bar, the classification
  that reads it is reported as Undetermined.  On a flat series of fourteen bars every
  moving average is NaN at the latest bar, and \<open>analyze_trend\<close> reports the long-term trend
  with the label of its last branch, the one it also gives to equal averages.
\<close>

theorem fourteen_bars_counterexample:
  "fst (analyze_trend spec_lib (init [fourteen_bars] 0)) =
     Inr [(''current_price'', Num (Finite 100)), (''sma_20'', Num NaN), (''sma_50'', Num NaN),
          (''sma_200'', Num NaN), (''short_term_trend'', Str Sideways),
          (''long_term_trend'', Str LongNeutral)]"
proof -
  have "\<not> has_column (frame_of (init [fourteen_bars] 0)) ''SMA_20''"
    "14 \<le> length (bars (frame_of (init [fourteen_bars] 0)))"
    by (simp_all add: has_column_def fourteen_bars_def)
  then show ?thesis
    by (simp add: analyze_trend_fresh fourteen_trend)
qed

text \<open>
  Claim C2, amended.  On every series of at least fourteen bars \<open>get_summary\<close> raises no
  exception, and a classification whose reported input is NaN carries the label of the
  branch that is left when every comparison is false: Neutral for the long-term trend,
  Sideways for the short-term trend, Neutral for the RSI and the stochastic signal, Bearish
  for the MACD, and within the bands when both Bollinger bands are NaN.
\<close>

theorem undefined_indicator_falls_through:
  assumes "14 \<le> length (bars (frame_of st))"
  shows "\<exists>tr mo vo sig latest.
     fst (get_summary L st)
       = Inr [(''trend'', Dict tr), (''momentum'', Dict mo), (''volatility'', Dict vo),
              (''signals'', Dict sig), (''latest_data'', Dict latest)]
     \<and> (map_of tr ''sma_200'' = Some (Num NaN) \<or> map_of tr ''sma_50'' = Some (Num NaN)
          \<longrightarrow> map_of tr ''long_term_trend'' = Some (Str LongNeutral))
     \<and> (map_of tr ''sma_20'' = Some (Num NaN) \<or> map_of tr ''sma_50'' = Some (Num NaN)
          \<longrightarrow> map_of tr ''short_term_trend'' = Some (Str Sideways))
     \<and> (map_of mo ''rsi'' = Some (Num NaN) \<longrightarrow> map_of mo ''rsi_signal'' = Some (Str Neutral))
     \<and> (map_of mo ''macd'' = Some (Num NaN) \<longrightarrow> map_of mo ''macd_signal'' = Some (Str Bearish))
     \<and> (map_of mo ''stoch_k'' = Some (Num NaN)
          \<longrightarrow> map_of mo ''stoch_signal'' = Some (Str Neutral))
     \<and> (map_of vo ''bb_upper'' = Some (Num NaN) \<and> map_of vo ''bb_lower'' = Some (Num NaN)
          \<longrightarrow> map_of vo ''bb_position'' = Some (Str WithinBands))"
proof -
  define df where "df = augment L (frame_of st)"
  from assms obtain d where d: "summary_of L df = Inr d"
    using summary_of_returns [of df L] by (auto simp: df_def ready_augment)
  then obtain tr mo vo sig latest where
    p: "trend_info df = Inr tr" "momentum_info df = Inr mo" "volatility_info L df = Inr vo"
    and e: "d = [(''trend'', Dict tr), (''momentum'', Dict mo), (''volatility'', Dict vo),
          (''signals'', Dict sig), (''latest_data'', Dict (to_dict latest))]"
    by (rule summary_of_Inr)
  have 0: "fst (get_summary L st)
       = Inr [(''trend'', Dict tr), (''momentum'', Dict mo), (''volatility'', Dict vo),
              (''signals'', Dict sig), (''latest_data'', Dict (to_dict latest))]"
    by (simp add: get_summary_long [OF assms] df_def [symmetric] d e)
  from p(1) have 1:
    "map_of tr ''sma_200'' = Some (Num NaN) \<or> map_of tr ''sma_50'' = Some (Num NaN)
          \<longrightarrow> map_of tr ''long_term_trend'' = Some (Str LongNeutral)"
    "map_of tr ''sma_20'' = Some (Num NaN) \<or> map_of tr ''sma_50'' = Some (Num NaN)
          \<longrightarrow> map_of tr ''short_term_trend'' = Some (Str Sideways)"
    by (elim trend_info_Inr, auto simp: long_term_trend_def short_term_trend_def flt_def)+
  from p(2) have 2:
    "map_of mo ''rsi'' = Some (Num NaN) \<longrightarrow> map_of mo ''rsi_signal'' = Some (Str Neutral)"
    "map_of mo ''macd'' = Some (Num NaN) \<longrightarrow> map_of mo ''macd_signal'' = Some (Str Bearish)"
    "map_of mo ''stoch_k'' = Some (Num NaN) \<longrightarrow> map_of mo ''stoch_signal'' = Some (Str Neutral)"
    by (elim momentum_info_Inr,
        auto simp: rsi_signal_def macd_label_def stoch_label_def flt_def)+
  from p(3) have 3:
    "map_of vo ''bb_upper'' = Some (Num NaN) \<and> map_of vo ''bb_lower'' = Some (Num NaN)
          \<longrightarrow> map_of vo ''bb_position'' = Some (Str WithinBands)"
    by (elim volatility_info_Inr) (auto simp: bb_position_def flt_def)
  from 0 1 2 3 show ?thesis by blast
qed

theorem undefined_indicator_falls_through_witness:
  "14 \<le> length (bars (frame_of (init [fourteen_bars] 0)))
   \<and> (\<exists>mo vo sig latest.
     fst (get_summary spec_lib (init [fourteen_bars] 0))
       = Inr [(''trend'',
           Dict [(''current_price'', Num (Finite 100)), (''sma_20'', Num NaN),
                 (''sma_50'', Num NaN), (''sma_200'', Num NaN),
                 (''short_term_trend'', Str Sideways), (''long_term_trend'', Str LongNeutral)]),
          (''momentum'', Dict mo), (''volatility'', Dict vo),
          (''signals'', Dict sig), (''latest_data'', Dict latest)])"
proof -
  have h: "14 \<le> length (bars (frame_of (init [fourteen_bars] 0)))"
    by (simp add: fourteen_bars_def)
  from undefined_indicator_falls_through [OF h, of spec_lib] obtain tr mo vo sig latest where
    g: "fst (get_summary spec_lib (init [fourteen_bars] 0))
       = Inr [(''trend'', Dict tr), (''momentum'', Dict mo), (''volatility'', Dict vo),
              (''signals'', Dict sig), (''latest_data'', Dict latest)]"
    by blast
  then have "summary_of spec_lib (augment spec_lib fourteen_bars)
       = Inr [(''trend'', Dict tr), (''momentum'', Dict mo), (''volatility'', Dict vo),
              (''signals'', Dict sig), (''latest_data'', Dict latest)]"
    by (simp add: get_summary_long [OF h])
  then have "tr = [(''current_price'', Num (Finite 100)), (''sma_20'', Num NaN),
                 (''sma_50'', Num NaN), (''sma_200'', Num NaN),
                 (''short_term_trend'', Str Sideways), (''long_term_trend'', Str LongNeutral)]"
    by (elim summary_of_Inr) (simp add: fourteen_trend)
  with g h show ?thesis by blast
qed

section \<open>Failure\<close>

text \<open>
  Claim C3, as stated: on the empty series the analysis fails with InsufficientDataError.
  It fails with an IndexError.
\<close>

theorem empty_series_counterexample:
  "fst (get_summary spec_lib (init [empty_series] 0)) = Inl IndexError
   \<and> fst (get_summary spec_lib (init [empty_series] 0)) \<noteq> Inl InsufficientDataError"
  by (simp add: get_summary_short empty_series_def)

text \<open>
  Claim C3, amended.  On the empty series \<open>get_summary\<close> fails with IndexError, raised
  inside \<open>add_technical_indicators\<close> before any analysis runs; \<open>get_summary\<close> never fails with
  InsufficientDataError.
\<close>

theorem get_summary_failure:
  "(bars (frame_of st) = [] \<longrightarrow>
      fst (add_technical_indicators L st) = Inl IndexError
      \<and> fst (get_summary L st) = Inl IndexError)
   \<and> fst (get_summary L st) \<noteq> Inl InsufficientDataError"
proof (intro conjI impI)
  assume "bars (frame_of st) = []"
  then have s: "length (bars (frame_of st)) < 14" by simp
  from s show "fst (add_technical_indicators L st) = Inl IndexError"
    by (simp add: add_technical_indicators_short)
  from s show "fst (get_summary L st) = Inl IndexError"
    by (simp add: get_summary_short)
next
  show "fst (get_summary L st) \<noteq> Inl InsufficientDataError"
  proof (cases "length (bars (frame_of st)) < 14")
    case True
    then show ?thesis by (simp add: get_summary_short)
  next
    case False
    then have "\<exists>d. fst (get_summary L st) = Inr d"
      by (simp add: get_summary_returns)
    then show ?thesis by auto
  qed
qed

theorem get_summary_failure_witness:
  "bars (frame_of (init [empty_series] 0)) = []
   \<and> fst (add_technical_indicators spec_lib (init [empty_series] 0)) = Inl IndexError
   \<and> fst (get_summary spec_lib (init [empty_series] 0)) = Inl IndexError"
proof -
  have 1: "bars (frame_of (init [empty_series] 0)) = []"
    by (simp add: empty_series_def)
  show ?thesis
    using 1 get_summary_failure [of "init [empty_series] 0" spec_lib] by simp
qed

text \<open>
  Claim C10.  \<open>analyze_trend\<close> reads the second-to-last row, so on a series of fewer than
  two bars that read is out of bounds, and \<open>analyze_trend\<close>, \<open>generate_signals\<close> and
  \<open>get_summary\<close> each fail with IndexError: none returns a result and none raises
  InsufficientDataError.
\<close>

theorem fewer_than_two_bars:
  assumes "length (bars (frame_of st)) < 2"
  shows "iloc (frame_of (snd (analyze_trend L st))) (- 2) = Inl IndexError
    \<and> fst (analyze_trend L st) = Inl IndexError
    \<and> fst (generate_signals L st) = Inl IndexError
    \<and> fst (get_summary L st) = Inl IndexError"
proof -
  from assms have "length (bars (frame_of (snd (analyze_trend L st)))) < 2"
    by (rule analyze_trend_short)
  then have "iloc (frame_of (snd (analyze_trend L st))) (- 2) = Inl IndexError"
    by (simp add: iloc_prev)
  with assms show ?thesis
    by (simp add: analyze_trend_short generate_signals_short get_summary_short)
qed

theorem fewer_than_two_bars_witness:
  "length (bars (frame_of (init [one_bar] 0))) < 2
   \<and> iloc (frame_of (snd (analyze_trend spec_lib (init [one_bar] 0)))) (- 2) = Inl IndexError
   \<and> fst (analyze_trend spec_lib (init [one_bar] 0)) = Inl IndexError
   \<and> fst (generate_signals spec_lib (init [one_bar] 0)) = Inl IndexError
   \<and> fst (get_summary spec_lib (init [one_bar] 0)) = Inl IndexError"
proof -
  have h: "length (bars (frame_of (init [one_bar] 0))) < 2"
    by (simp add: one_bar_def)
  show ?thesis
    using h fewer_than_two_bars [OF h, of spec_lib] by simp
qed

section \<open>Determinism and the caller's series\<close>

text \<open>
  Claim C6.  Two frames with the same content at two addresses of the store: the summary
  of an analyzer built on the second, after an analyzer built on the first has produced its
  summary, is equal to the first summary.
\<close>

theorem get_summary_repeatable:
  assumes "a1 < length h" "a2 < length h" "h ! a1 = h ! a2"
  shows "fst (get_summary L (init (fst (snd (get_summary L (init h a1)))) a2))
    = fst (get_summary L (init h a1))"
proof -
  define h' where "h' = fst (snd (get_summary L (init h a1)))"
  have "prefix (fst (init h a1)) h'"
    unfolding h'_def by (rule prefix_get_summary)
  then have "prefix h h'"
    by (simp add: append_prefixD)
  then have "h' ! a2 = h ! a2"
    using assms(2) by (rule prefix_nth)
  with assms(3) have "frame_of (init h' a2) = frame_of (init h a1)"
    by simp
  then show ?thesis
    unfolding h'_def [symmetric] by (simp only: get_summary_fst)
qed

theorem get_summary_repeatable_witness:
  "(0::nat) < length [fourteen_bars, fourteen_bars]
   \<and> (1::nat) < length [fourteen_bars, fourteen_bars]
   \<and> [fourteen_bars, fourteen_bars] ! 0 = [fourteen_bars, fourteen_bars] ! 1
   \<and> fst (get_summary spec_lib
        (init (fst (snd (get_summary spec_lib (init [fourteen_bars, fourteen_bars] 0)))) 1))
      = fst (get_summary spec_lib (init [fourteen_bars, fourteen_bars] 0))"
  using get_summary_repeatable [of 0 "[fourteen_bars, fourteen_bars]" 1 spec_lib] by simp

text \<open>
  Claim C7.  After constructing an analyzer on the frame at an address of the store and
  any sequence of calls on it, every frame the store held before is unchanged; in
  particular the frame the caller passed in.
\<close>

theorem caller_series_untouched:
  assumes "a < length h"
  shows "prefix h (fst (run L cs (init h a))) \<and> fst (run L cs (init h a)) ! a = h ! a"
proof -
  have "prefix (fst (init h a)) (fst (run L cs (init h a)))"
    by (rule prefix_run)
  then have p: "prefix h (fst (run L cs (init h a)))"
    by (simp add: append_prefixD)
  have "fst (run L cs (init h a)) ! a = h ! a"
    by (rule prefix_nth [OF p assms])
  with p show ?thesis by simp
qed

theorem caller_series_untouched_witness:
  "(0::nat) < length [fourteen_bars]
   \<and> prefix [fourteen_bars]
       (fst (run spec_lib [AddTechnicalIndicators, AnalyzeTrend, GetSummary, GenerateSignals]
          (init [fourteen_bars] 0)))
   \<and> fst (run spec_lib [AddTechnicalIndicators, AnalyzeTrend, GetSummary, GenerateSignals]
          (init [fourteen_bars] 0)) ! 0 = fourteen_bars"
  using caller_series_untouched [of 0 "[fourteen_bars]" spec_lib
      "[AddTechnicalIndicators, AnalyzeTrend, GetSummary, GenerateSignals]"]
  by simp

end
